theory Spec2Isabelle
  imports Complex_Main "HOL-Library.AList" "HOL-Library.Sublist" "HOL-Library.Word"
begin

section \<open>Python values, exceptions and conventions\<close>

text \<open>
  The module \<^verbatim>\<open>src/ai/minimal_ai_service.py\<close> is embedded function by function.

  \<^item> Python floats are modelled by exact rationals (\<^typ>\<open>rat\<close>): the constants of the
    source (\<open>0.8\<close>, \<open>0.3\<close>, \<open>1.5\<close>, ...) are the decimal fractions they denote. The
    floats of the source are channel means, a ratio of two image dimensions and sums of
    two such constants; a double carries them with a relative error below 2 to the power -52, so
    a truncation or a comparison with a threshold can differ from the exact one only for
    images of more than 2 to the power 45 pixels.
  \<^item> A Python \<^verbatim>\<open>dict\<close> is an association list in insertion order; a store to a
    present key keeps the key's position (\<^const>\<open>AList.update\<close>).
  \<^item> An exception is a value \<open>Exc class message\<close>; a function that may raise returns
    \<open>exc + 'a\<close>, and every \<^verbatim>\<open>try/except\<close> of the source is a \<open>case\<close> on that sum.
\<close>

datatype exc = Exc (exc_class: string) (exc_str: string)

datatype pyval =
    PStr string
  | PInt int
  | PFloat rat
  | PList "pyval list"
  | PDict "(string \<times> pyval) list"

type_synonym pydict = "(string \<times> pyval) list"

section \<open>Color Classifier: \<^verbatim>\<open>rgb_to_color_name\<close>\<close>

text \<open>\<^verbatim>\<open>self.color_names\<close>, in the insertion order of the dict literal.\<close>

definition color_names :: "(string \<times> (int \<times> int \<times> int) list) list" where
  "color_names =
    [(''red'',    [(255, 0, 0), (139, 0, 0), (220, 20, 60)]),
     (''green'',  [(0, 128, 0), (0, 255, 0), (34, 139, 34)]),
     (''blue'',   [(0, 0, 255), (0, 0, 139), (30, 144, 255)]),
     (''yellow'', [(255, 255, 0), (255, 215, 0), (255, 165, 0)]),
     (''purple'', [(128, 0, 128), (75, 0, 130), (138, 43, 226)]),
     (''orange'', [(255, 165, 0), (255, 140, 0), (255, 69, 0)]),
     (''pink'',   [(255, 192, 203), (255, 20, 147), (255, 105, 180)]),
     (''brown'',  [(165, 42, 42), (139, 69, 19), (160, 82, 45)]),
     (''gray'',   [(128, 128, 128), (169, 169, 169), (105, 105, 105)]),
     (''black'',  [(0, 0, 0), (25, 25, 25), (47, 79, 79)]),
     (''white'',  [(255, 255, 255), (248, 248, 255), (245, 245, 245)])]"

text \<open>\<^verbatim>\<open>int(x)\<close> on a float truncates towards zero.\<close>

definition py_int :: "rat \<Rightarrow> int" where
  "py_int x = (if 0 \<le> x then \<lfloor>x\<rfloor> else \<lceil>x\<rceil>)"

text \<open>
  The source compares \<^verbatim>\<open>distance = (dr ** 2 + dg ** 2 + db ** 2) ** 0.5\<close> with the running
  minimum, which starts at \<^verbatim>\<open>float('inf')\<close>. The model keeps the squared distance, an
  integer, and \<open>None\<close> for infinity: the square root is strictly increasing (lemma
  \<open>sqrt_order_is_square_order\<close> below), so every comparison has the same outcome.
\<close>

definition sq_distance :: "int \<Rightarrow> int \<Rightarrow> int \<Rightarrow> int \<times> int \<times> int \<Rightarrow> int" where
  "sq_distance r g b t =
     (case t of (target_r, target_g, target_b) \<Rightarrow>
        (r - target_r)\<^sup>2 + (g - target_g)\<^sup>2 + (b - target_b)\<^sup>2)"

text \<open>\<^verbatim>\<open>distance < min_distance\<close>\<close>

definition closer :: "int \<Rightarrow> int option \<Rightarrow> bool" where
  "closer d min_distance = (case min_distance of None \<Rightarrow> True | Some m \<Rightarrow> d < m)"

text \<open>The inner loop, over the prototypes of one palette entry; the state is
  \<open>(min_distance, closest_color)\<close>.\<close>

fun scan_prototypes ::
  "int \<Rightarrow> int \<Rightarrow> int \<Rightarrow> string \<Rightarrow> (int \<times> int \<times> int) list \<Rightarrow> int option \<times> string
     \<Rightarrow> int option \<times> string" where
  "scan_prototypes r g b color_name [] st = st"
| "scan_prototypes r g b color_name (t # ts) (min_distance, closest_color) =
     (let distance = sq_distance r g b t
      in if closer distance min_distance
         then scan_prototypes r g b color_name ts (Some distance, color_name)
         else scan_prototypes r g b color_name ts (min_distance, closest_color))"

text \<open>The outer loop, over the items of the palette.\<close>

fun scan_palette ::
  "int \<Rightarrow> int \<Rightarrow> int \<Rightarrow> (string \<times> (int \<times> int \<times> int) list) list \<Rightarrow> int option \<times> string
     \<Rightarrow> int option \<times> string" where
  "scan_palette r g b [] st = st"
| "scan_palette r g b ((color_name, rgb_values) # rest) st =
     scan_palette r g b rest (scan_prototypes r g b color_name rgb_values st)"

definition is_grayscale :: "int \<Rightarrow> int \<Rightarrow> int \<Rightarrow> bool" where
  "is_grayscale r g b \<longleftrightarrow> \<bar>r - g\<bar> < 30 \<and> \<bar>g - b\<bar> < 30 \<and> \<bar>r - b\<bar> < 30"

definition closest_palette_color :: "int \<Rightarrow> int \<Rightarrow> int \<Rightarrow> string" where
  "closest_palette_color r g b = snd (scan_palette r g b color_names (None, ''mixed''))"

definition rgb_to_color_name :: "rat \<Rightarrow> rat \<Rightarrow> rat \<Rightarrow> string" where
  "rgb_to_color_name rf gf bf =
     (let r = py_int rf; g = py_int gf; b = py_int bf
      in if is_grayscale r g b
         then (if r < 60 then ''black'' else if r > 200 then ''white'' else ''gray'')
         else closest_palette_color r g b)"

definition palette_names :: "string list" where
  "palette_names = map fst color_names"


section \<open>The Pillow interface\<close>

text \<open>
  The imaging library (Pillow) is not part of the repository. Its operations are the
  fields of a record, over any type \<open>'img\<close> of image handles, and each of them may raise:
  \<^item> \<open>image_open\<close>: \<^verbatim>\<open>Image.open(io.BytesIO(image_bytes))\<close>;
  \<^item> \<open>image_mode\<close>, \<open>image_size\<close>: the attributes \<^verbatim>\<open>image.mode\<close> and \<^verbatim>\<open>image.size\<close>
    (width first);
  \<^item> \<open>image_convert\<close>: \<^verbatim>\<open>image.convert(mode)\<close>;
  \<^item> \<open>image_crop\<close>: \<^verbatim>\<open>image.crop((left, upper, right, lower))\<close>;
  \<^item> \<open>stat_mean\<close>: \<^verbatim>\<open>ImageStat.Stat(image).mean\<close>, one value per band.
\<close>

record 'img pillow =
  image_open :: "8 word list \<Rightarrow> exc + 'img"
  image_mode :: "'img \<Rightarrow> string"
  image_size :: "'img \<Rightarrow> nat \<times> nat"
  image_convert :: "'img \<Rightarrow> string \<Rightarrow> exc + 'img"
  image_crop :: "'img \<Rightarrow> nat \<times> nat \<times> nat \<times> nat \<Rightarrow> exc + 'img"
  stat_mean :: "'img \<Rightarrow> exc + rat list"

text \<open>\<^verbatim>\<open>r, g, b = stat.mean\<close>: unpacking needs exactly three values.\<close>

definition unpack3 :: "rat list \<Rightarrow> exc + rat \<times> rat \<times> rat" where
  "unpack3 m =
     (case m of
        [r, g, b] \<Rightarrow> Inr (r, g, b)
      | _ \<Rightarrow> Inl (Exc ''ValueError'' ''wrong number of values to unpack (expected 3)''))"

definition mean_rgb :: "'img pillow \<Rightarrow> 'img \<Rightarrow> exc + rat \<times> rat \<times> rat" where
  "mean_rgb P img =
     (case stat_mean P img of Inl e \<Rightarrow> Inl e | Inr m \<Rightarrow> unpack3 m)"

section \<open>Region Color Aggregator: \<^verbatim>\<open>analyze_colors\<close>\<close>

text \<open>\<^verbatim>\<open>d.get(k, default)\<close> on a dict.\<close>

definition dict_get :: "('k \<times> 'v) list \<Rightarrow> 'k \<Rightarrow> 'v \<Rightarrow> 'v" where
  "dict_get d k dflt = (case map_of d k of None \<Rightarrow> dflt | Some v \<Rightarrow> v)"

definition regions :: "nat \<Rightarrow> nat \<Rightarrow> (nat \<times> nat \<times> nat \<times> nat) list" where
  "regions width height =
     [(0, 0, width div 2, height div 2),
      (width div 2, 0, width, height div 2),
      (0, height div 2, width div 2, height),
      (width div 2, height div 2, width, height),
      (width div 4, height div 4, 3 * width div 4, 3 * height div 4)]"

text \<open>The body of the inner \<^verbatim>\<open>try\<close>, up to the classification of one region.\<close>

definition region_color :: "'img pillow \<Rightarrow> 'img \<Rightarrow> nat \<times> nat \<times> nat \<times> nat \<Rightarrow> exc + string" where
  "region_color P img region =
     (case image_crop P img region of
        Inl e \<Rightarrow> Inl e
      | Inr crop \<Rightarrow>
          (case mean_rgb P crop of
             Inl e \<Rightarrow> Inl e
           | Inr (r, g, b) \<Rightarrow> Inr (rgb_to_color_name r g b)))"

text \<open>The loop over the regions; \<^verbatim>\<open>except: continue\<close> skips a region that raised.\<close>

fun count_regions ::
  "'img pillow \<Rightarrow> 'img \<Rightarrow> (nat \<times> nat \<times> nat \<times> nat) list \<Rightarrow> (string \<times> nat) list
     \<Rightarrow> (string \<times> nat) list" where
  "count_regions P img [] color_counts = color_counts"
| "count_regions P img (region # rest) color_counts =
     (case region_color P img region of
        Inl e \<Rightarrow> count_regions P img rest color_counts
      | Inr color \<Rightarrow>
          count_regions P img rest
            (AList.update color (dict_get color_counts color 0 + 1) color_counts))"

text \<open>\<^verbatim>\<open>sorted(color_counts.items(), key=lambda x: x[1], reverse=True)\<close>: a stable sort by
  descending count.\<close>

definition sorted_by_count :: "(string \<times> nat) list \<Rightarrow> (string \<times> nat) list" where
  "sorted_by_count items = sort_key (\<lambda>x. - int (snd x)) items"

fun append_new :: "(string \<times> nat) list \<Rightarrow> string list \<Rightarrow> string list" where
  "append_new [] colors = colors"
| "append_new ((color, count) # rest) colors =
     append_new rest (if color \<notin> set colors then colors @ [color] else colors)"

definition analyze_colors :: "'img pillow \<Rightarrow> 'img \<Rightarrow> string list" where
  "analyze_colors P img =
     (case mean_rgb P img of
        Inl e \<Rightarrow> [''mixed'']
      | Inr (r, g, b) \<Rightarrow>
          (let dominant_color = rgb_to_color_name r g b;
               colors = [dominant_color];
               (width, height) = image_size P img;
               color_counts = count_regions P img (regions width height) [];
               sorted_colors = sorted_by_count color_counts;
               colors = append_new (take 4 sorted_colors) colors
           in take 3 colors))"

section \<open>Brightness Analyzer: \<^verbatim>\<open>analyze_brightness\<close>\<close>

definition analyze_brightness :: "'img pillow \<Rightarrow> 'img \<Rightarrow> rat" where
  "analyze_brightness P img =
     (case image_convert P img ''L'' of
        Inl e \<Rightarrow> 128
      | Inr grayscale \<Rightarrow>
          (case stat_mean P grayscale of
             Inl e \<Rightarrow> 128
           | Inr [] \<Rightarrow> 128
           | Inr (m0 # _) \<Rightarrow> m0))"

section \<open>Emotion Mapper: \<^verbatim>\<open>analyze_emotions_from_colors\<close>\<close>

definition color_emotions :: "(string \<times> (string \<times> rat) list) list" where
  "color_emotions =
    [(''red'',    [(''energetic'', 8/10), (''passionate'', 7/10), (''exciting'', 6/10)]),
     (''blue'',   [(''calm'', 8/10), (''peaceful'', 7/10), (''cool'', 6/10)]),
     (''green'',  [(''natural'', 8/10), (''peaceful'', 6/10), (''fresh'', 7/10)]),
     (''yellow'', [(''happy'', 8/10), (''cheerful'', 7/10), (''bright'', 6/10)]),
     (''purple'', [(''mysterious'', 7/10), (''elegant'', 6/10), (''creative'', 5/10)]),
     (''orange'', [(''warm'', 8/10), (''energetic'', 6/10), (''friendly'', 7/10)]),
     (''pink'',   [(''romantic'', 8/10), (''soft'', 7/10), (''feminine'', 6/10)]),
     (''brown'',  [(''earthy'', 8/10), (''natural'', 6/10), (''warm'', 5/10)]),
     (''black'',  [(''dramatic'', 8/10), (''mysterious'', 7/10), (''elegant'', 6/10)]),
     (''white'',  [(''clean'', 8/10), (''pure'', 7/10), (''minimal'', 6/10)]),
     (''gray'',   [(''neutral'', 8/10), (''calm'', 5/10), (''balanced'', 6/10)])]"

text \<open>\<^verbatim>\<open>for emotion, score in color_emotions[color].items()\<close>\<close>

fun add_color_emotions :: "(string \<times> rat) list \<Rightarrow> (string \<times> rat) list \<Rightarrow> (string \<times> rat) list" where
  "add_color_emotions [] emotions = emotions"
| "add_color_emotions ((emotion, score) # rest) emotions =
     add_color_emotions rest
       (AList.update emotion (max (dict_get emotions emotion 0) score) emotions)"

text \<open>\<^verbatim>\<open>for color in colors: if color in color_emotions: ...\<close>\<close>

fun color_based_emotions :: "string list \<Rightarrow> (string \<times> rat) list \<Rightarrow> (string \<times> rat) list" where
  "color_based_emotions [] emotions = emotions"
| "color_based_emotions (color # rest) emotions =
     (case map_of color_emotions color of
        None \<Rightarrow> color_based_emotions rest emotions
      | Some table \<Rightarrow> color_based_emotions rest (add_color_emotions table emotions))"

definition brightness_based_emotions :: "rat \<Rightarrow> (string \<times> rat) list \<Rightarrow> (string \<times> rat) list" where
  "brightness_based_emotions brightness emotions =
     (if brightness > 180 then
        (let emotions = AList.update ''bright'' (8/10) emotions
         in AList.update ''cheerful'' (dict_get emotions ''cheerful'' 0 + 3/10) emotions)
      else if brightness < 80 then
        (let emotions = AList.update ''moody'' (7/10) emotions
         in AList.update ''dramatic'' (dict_get emotions ''dramatic'' 0 + 3/10) emotions)
      else AList.update ''balanced'' (6/10) emotions)"

text \<open>The last loop stores \<^verbatim>\<open>min(emotions[emotion], 1.0)\<close> at every key, in place.\<close>

definition normalize_emotions :: "(string \<times> rat) list \<Rightarrow> (string \<times> rat) list" where
  "normalize_emotions emotions = map (\<lambda>(emotion, v). (emotion, min v 1)) emotions"

definition analyze_emotions_from_colors :: "string list \<Rightarrow> rat \<Rightarrow> (string \<times> rat) list" where
  "analyze_emotions_from_colors colors brightness =
     normalize_emotions
       (brightness_based_emotions brightness (color_based_emotions colors []))"

section \<open>Caption Composer: \<^verbatim>\<open>generate_basic_caption\<close>\<close>

text \<open>\<^verbatim>\<open>[obj["name"] for obj in objects if obj["name"] in ["landscape", "portrait"]]\<close>;
  \<^verbatim>\<open>obj["name"]\<close> raises \<^verbatim>\<open>KeyError\<close> on a dict without that key.\<close>

fun orientations_of :: "pydict list \<Rightarrow> exc + string list" where
  "orientations_of [] = Inr []"
| "orientations_of (obj # rest) =
     (case map_of obj ''name'' of
        None \<Rightarrow> Inl (Exc ''KeyError'' ''name'')
      | Some name \<Rightarrow>
          (case orientations_of rest of
             Inl e \<Rightarrow> Inl e
           | Inr others \<Rightarrow>
               if name = PStr ''landscape'' then Inr (''landscape'' # others)
               else if name = PStr ''portrait'' then Inr (''portrait'' # others)
               else Inr others))"

text \<open>\<^verbatim>\<open>" ".join(parts)\<close>\<close>

fun join_space :: "string list \<Rightarrow> string" where
  "join_space [] = []"
| "join_space [p] = p"
| "join_space (p # q # ps) = p @ '' '' @ join_space (q # ps)"

definition generate_basic_caption :: "string list \<Rightarrow> pydict list \<Rightarrow> rat \<Rightarrow> string" where
  "generate_basic_caption colors objects brightness =
     (let parts = [if brightness > 200 then ''A bright''
                   else if brightness < 80 then ''A dark''
                   else ''A''];
          color_text = (case colors of
                          c0 # c1 # _ \<Rightarrow> c0 @ '' and '' @ c1
                        | [c0] \<Rightarrow> c0
                        | [] \<Rightarrow> ''colorful'');
          parts = parts @ [color_text]
      in case orientations_of objects of
           Inl e \<Rightarrow> ''A photograph''
         | Inr orientations \<Rightarrow>
             (let parts = (case orientations of [] \<Rightarrow> parts | o0 # _ \<Rightarrow> parts @ [o0]);
                  parts = parts @ [''image'']
              in join_space parts))"

section \<open>Image Embedding Encoder: \<^verbatim>\<open>generate_simple_embedding\<close>\<close>

text \<open>
  The encoder receives the analysis result as a dict and reads it with the dynamic
  operations of Python; each of them is modelled with the exceptions it raises on a value
  of the wrong kind. \<open>bind_exc\<close> sequences two steps inside one \<^verbatim>\<open>try\<close> block.
\<close>

definition bind_exc :: "exc + 'a \<Rightarrow> ('a \<Rightarrow> exc + 'b) \<Rightarrow> exc + 'b" where
  "bind_exc m f = (case m of Inl e \<Rightarrow> Inl e | Inr v \<Rightarrow> f v)"

text \<open>\<^verbatim>\<open>for x in v\<close>: the elements of a list, the characters of a string, the keys of a dict.\<close>

fun py_iter :: "pyval \<Rightarrow> exc + pyval list" where
  "py_iter (PList xs) = Inr xs"
| "py_iter (PStr s) = Inr (map (\<lambda>c. PStr [c]) s)"
| "py_iter (PDict d) = Inr (map (\<lambda>kv. PStr (fst kv)) d)"
| "py_iter (PInt n) = Inl (Exc ''TypeError'' ''int object is not iterable'')"
| "py_iter (PFloat x) = Inl (Exc ''TypeError'' ''float object is not iterable'')"

text \<open>Lists and dicts are unhashable.\<close>

fun hashable :: "pyval \<Rightarrow> bool" where
  "hashable (PList xs) = False"
| "hashable (PDict d) = False"
| "hashable v = True"

text \<open>\<^verbatim>\<open>k in d\<close> and \<^verbatim>\<open>d[k]\<close> for a dict \<open>d\<close> whose keys are strings: the key is hashed
  first; a number is never equal to a string key.\<close>

definition key_lookup :: "(string \<times> 'a) list \<Rightarrow> pyval \<Rightarrow> exc + 'a option" where
  "key_lookup d k =
     (if \<not> hashable k then Inl (Exc ''TypeError'' ''unhashable type'')
      else case k of PStr s \<Rightarrow> Inr (map_of d s) | _ \<Rightarrow> Inr None)"

text \<open>\<^verbatim>\<open>obj.get(k, default)\<close>: only a dict has the method.\<close>

definition py_get :: "pyval \<Rightarrow> string \<Rightarrow> pyval \<Rightarrow> exc + pyval" where
  "py_get obj k dflt =
     (case obj of
        PDict d \<Rightarrow> Inr (dict_get d k dflt)
      | _ \<Rightarrow> Inl (Exc ''AttributeError'' ''object has no attribute get''))"

text \<open>\<^verbatim>\<open>v.items()\<close>\<close>

definition py_items :: "pyval \<Rightarrow> exc + (string \<times> pyval) list" where
  "py_items v =
     (case v of
        PDict d \<Rightarrow> Inr d
      | _ \<Rightarrow> Inl (Exc ''AttributeError'' ''object has no attribute items''))"

text \<open>\<^verbatim>\<open>v[:n]\<close>: a list or a string can be sliced.\<close>

definition py_slice_to :: "nat \<Rightarrow> pyval \<Rightarrow> exc + pyval" where
  "py_slice_to n v =
     (case v of
        PList xs \<Rightarrow> Inr (PList (take n xs))
      | PStr s \<Rightarrow> Inr (PStr (take n s))
      | _ \<Rightarrow> Inl (Exc ''TypeError'' ''object is not subscriptable by a slice''))"

text \<open>\<^verbatim>\<open>hash(v)\<close>: the builtin is a parameter \<open>H\<close> of the model (the hash of a string is
  salted per process); it raises on an unhashable value.\<close>

definition py_hash :: "(pyval \<Rightarrow> int) \<Rightarrow> pyval \<Rightarrow> exc + int" where
  "py_hash H v = (if hashable v then Inr (H v) else Inl (Exc ''TypeError'' ''unhashable type''))"

definition color_map :: "(string \<times> nat) list" where
  "color_map =
     [(''red'', 0), (''green'', 1), (''blue'', 2), (''yellow'', 3), (''purple'', 4),
      (''orange'', 5), (''pink'', 6), (''brown'', 7), (''black'', 8), (''white'', 9),
      (''gray'', 10)]"

definition object_features :: "(string \<times> nat) list" where
  "object_features =
     [(''landscape'', 11), (''portrait'', 12), (''bright_image'', 13), (''dark_image'', 14),
      (''high_resolution'', 15), (''medium_resolution'', 16), (''low_resolution'', 17)]"

text \<open>\<^verbatim>\<open>for color in ...: if color in color_map: features[color_map[color]] = 1.0\<close>\<close>

fun color_features :: "pyval list \<Rightarrow> pyval list \<Rightarrow> exc + pyval list" where
  "color_features [] features = Inr features"
| "color_features (color # rest) features =
     (case key_lookup color_map color of
        Inl e \<Rightarrow> Inl e
      | Inr None \<Rightarrow> color_features rest features
      | Inr (Some i) \<Rightarrow> color_features rest (features[i := PFloat 1]))"

text \<open>\<^verbatim>\<open>for obj in ...: obj_name = obj.get("name", ""); if obj_name in object_features:
  features[object_features[obj_name]] = obj.get("confidence", 0.5)\<close>\<close>

fun object_feature_loop :: "pyval list \<Rightarrow> pyval list \<Rightarrow> exc + pyval list" where
  "object_feature_loop [] features = Inr features"
| "object_feature_loop (obj # rest) features =
     bind_exc (py_get obj ''name'' (PStr [])) (\<lambda>obj_name.
     bind_exc (key_lookup object_features obj_name) (\<lambda>slot.
       case slot of
         None \<Rightarrow> object_feature_loop rest features
       | Some i \<Rightarrow>
           bind_exc (py_get obj ''confidence'' (PFloat (5/10))) (\<lambda>confidence.
             object_feature_loop rest (features[i := confidence]))))"

text \<open>\<^verbatim>\<open>for i, (emotion, score) in enumerate(...): if i < 20: features[18 + i] = score\<close>\<close>

fun emotion_features :: "nat \<Rightarrow> (string \<times> pyval) list \<Rightarrow> pyval list \<Rightarrow> pyval list" where
  "emotion_features i [] features = features"
| "emotion_features i ((emotion, score) # rest) features =
     emotion_features (Suc i) rest (if i < 20 then features[18 + i := score] else features)"

text \<open>\<^verbatim>\<open>for i, keyword in enumerate(...): if i < 12: hash_val = abs(hash(keyword)) % 100;
  features[38 + i] = hash_val / 100.0\<close>\<close>

fun keyword_features :: "(pyval \<Rightarrow> int) \<Rightarrow> nat \<Rightarrow> pyval list \<Rightarrow> pyval list \<Rightarrow> exc + pyval list" where
  "keyword_features H i [] features = Inr features"
| "keyword_features H i (keyword # rest) features =
     (if i < 12 then
        bind_exc (py_hash H keyword) (\<lambda>h.
          let hash_val = \<bar>h\<bar> mod 100
          in keyword_features H (Suc i) rest (features[38 + i := PFloat (of_int hash_val / 100)]))
      else keyword_features H (Suc i) rest features)"

text \<open>The body of the \<^verbatim>\<open>try\<close> block.\<close>

definition embedding_body :: "(pyval \<Rightarrow> int) \<Rightarrow> pydict \<Rightarrow> exc + pyval list" where
  "embedding_body H analysis_result =
     (let features = replicate 50 (PFloat 0)
      in bind_exc (py_iter (dict_get analysis_result ''colors'' (PList []))) (\<lambda>colors.
         bind_exc (color_features colors features) (\<lambda>features.
         bind_exc (py_iter (dict_get analysis_result ''objects'' (PList []))) (\<lambda>objects.
         bind_exc (object_feature_loop objects features) (\<lambda>features.
         bind_exc (py_items (dict_get analysis_result ''emotions'' (PDict []))) (\<lambda>items.
           let features = emotion_features 0 (take 20 items) features
           in bind_exc (py_slice_to 12 (dict_get analysis_result ''search_keywords'' (PList [])))
                (\<lambda>first_keywords.
              bind_exc (py_iter first_keywords) (\<lambda>keywords.
                keyword_features H 0 keywords features))))))))"

text \<open>\<^verbatim>\<open>except Exception: return [0.0] * 50\<close>\<close>

definition generate_simple_embedding :: "(pyval \<Rightarrow> int) \<Rightarrow> pydict \<Rightarrow> pyval list" where
  "generate_simple_embedding H analysis_result =
     (case embedding_body H analysis_result of
        Inl e \<Rightarrow> replicate 50 (PFloat 0)
      | Inr features \<Rightarrow> features)"

section \<open>The image path: \<^verbatim>\<open>analyze_image_basic\<close>\<close>

text \<open>The dict literal of a pseudo-object; the bounding box is the whole image.\<close>

definition pseudo_object :: "string \<Rightarrow> rat \<Rightarrow> nat \<Rightarrow> nat \<Rightarrow> pydict" where
  "pseudo_object name confidence width height =
     [(''name'', PStr name),
      (''confidence'', PFloat confidence),
      (''bounding_box'',
         PDict [(''x'', PInt 0), (''y'', PInt 0),
                (''width'', PInt (int width)), (''height'', PInt (int height))])]"

text \<open>The dict \<^verbatim>\<open>result\<close> as first created.\<close>

definition initial_result :: pydict where
  "initial_result =
     [(''objects'', PList []),
      (''text'', PList []),
      (''caption'', PStr []),
      (''emotions'', PDict []),
      (''colors'', PList []),
      (''search_keywords'', PList []),
      (''relationships'', PList []),
      (''semantic_concepts'', PList []),
      (''clip_embedding'', PList [])]"

text \<open>Lines 78--90: the orientation object.\<close>

definition orientation_objects :: "rat \<Rightarrow> nat \<Rightarrow> nat \<Rightarrow> pydict list" where
  "orientation_objects aspect_ratio width height =
     (if aspect_ratio > 15/10 then [pseudo_object ''landscape'' (9/10) width height]
      else if aspect_ratio < 67/100 then [pseudo_object ''portrait'' (9/10) width height]
      else [])"

text \<open>Lines 92--98: the size category.\<close>

definition size_category :: "nat \<Rightarrow> string" where
  "size_category total_pixels =
     (if total_pixels > 2000000 then ''high_resolution''
      else if total_pixels > 500000 then ''medium_resolution''
      else ''low_resolution'')"

text \<open>Lines 108--119: the brightness object.\<close>

definition brightness_objects :: "rat \<Rightarrow> nat \<Rightarrow> nat \<Rightarrow> pydict list" where
  "brightness_objects brightness width height =
     (if brightness > 200 then [pseudo_object ''bright_image'' (7/10) width height]
      else if brightness < 80 then [pseudo_object ''dark_image'' (7/10) width height]
      else [])"

text \<open>\<^verbatim>\<open>[obj["name"] for obj in objects]\<close>\<close>

fun object_names :: "pydict list \<Rightarrow> exc + pyval list" where
  "object_names [] = Inr []"
| "object_names (obj # rest) =
     (case map_of obj ''name'' of
        None \<Rightarrow> Inl (Exc ''KeyError'' ''name'')
      | Some name \<Rightarrow> bind_exc (object_names rest) (\<lambda>names. Inr (name # names)))"

text \<open>
  \<^verbatim>\<open>keywords.update(xs)\<close>: every new member is hashed. The set is kept as the list of
  its insertions; the order in which Python later iterates it is the parameter \<open>set_order\<close>
  of the model, applied to that list.
\<close>

definition set_update :: "pyval list \<Rightarrow> pyval list \<Rightarrow> exc + pyval list" where
  "set_update keywords xs =
     (if list_all hashable xs then Inr (keywords @ xs)
      else Inl (Exc ''TypeError'' ''unhashable type''))"

text \<open>Lines 136--141: the photography terms.\<close>

definition orientation_words :: "rat \<Rightarrow> pyval list" where
  "orientation_words aspect_ratio =
     (if aspect_ratio > 13/10 then [PStr ''wide'', PStr ''horizontal'']
      else if aspect_ratio < 8/10 then [PStr ''tall'', PStr ''vertical'']
      else [])"

text \<open>Lines 146--160: the semantic concepts.\<close>

definition semantic_concepts :: "string list \<Rightarrow> (string \<times> rat) list \<Rightarrow> pydict list" where
  "semantic_concepts colors emotions =
     map (\<lambda>color. [(''concept'', PStr (color @ '' tones'')),
                   (''confidence'', PFloat (7/10)),
                   (''category'', PStr ''visual'')]) (take 3 colors)
     @ map (\<lambda>(emotion, confidence).
                  [(''concept'', PStr emotion),
                   (''confidence'', PFloat confidence),
                   (''category'', PStr ''emotion'')])
         (filter (\<lambda>(emotion, confidence). confidence > 5/10) emotions)"

text \<open>
  The body of the \<^verbatim>\<open>try\<close> block. \<open>colors\<close>, \<open>objects\<close> and \<open>emotions\<close> name the values
  the source stores in \<^verbatim>\<open>result\<close> and reads back from it. \<^verbatim>\<open>width / height\<close> raises
  \<^verbatim>\<open>ZeroDivisionError\<close> when the height is zero.
\<close>

definition analyze_image_body ::
  "'img pillow \<Rightarrow> (pyval \<Rightarrow> int) \<Rightarrow> (pyval list \<Rightarrow> pyval list) \<Rightarrow> 8 word list \<Rightarrow> exc + pydict" where
  "analyze_image_body P H set_order image_bytes =
     bind_exc (image_open P image_bytes) (\<lambda>img.
     bind_exc (if image_mode P img \<noteq> ''RGB'' then image_convert P img ''RGB'' else Inr img) (\<lambda>img.
       let (width, height) = image_size P img;
           result = initial_result
       in if height = 0 then Inl (Exc ''ZeroDivisionError'' ''division by zero'')
          else
           (let aspect_ratio = (of_nat width / of_nat height :: rat);
                total_pixels = width * height;
                colors = analyze_colors P img;
                result = AList.update ''colors'' (PList (map PStr colors)) result;
                objects = [];
                objects = objects @ orientation_objects aspect_ratio width height;
                objects = objects @ [pseudo_object (size_category total_pixels) (8/10) width height];
                brightness = analyze_brightness P img;
                objects = objects @ brightness_objects brightness width height;
                result = AList.update ''objects'' (PList (map PDict objects)) result;
                emotions = analyze_emotions_from_colors colors brightness;
                result = AList.update ''emotions''
                           (PDict (map (\<lambda>(emotion, v). (emotion, PFloat v)) emotions)) result;
                result = AList.update ''caption''
                           (PStr (generate_basic_caption colors objects brightness)) result
            in bind_exc (set_update [] (map PStr colors)) (\<lambda>keywords.
               bind_exc (object_names objects) (\<lambda>names.
               bind_exc (set_update keywords names) (\<lambda>keywords.
               bind_exc (set_update keywords (map (\<lambda>kv. PStr (fst kv)) emotions)) (\<lambda>keywords.
                 let keywords = keywords @ orientation_words aspect_ratio;
                     result = AList.update ''search_keywords'' (PList (set_order keywords)) result;
                     concepts = semantic_concepts colors emotions;
                     result = AList.update ''semantic_concepts'' (PList (map PDict concepts)) result;
                     result = AList.update ''clip_embedding''
                                (PList (generate_simple_embedding H result)) result
                 in Inr result)))))))"

text \<open>\<^verbatim>\<open>except Exception as e: return {"error": str(e)}\<close>\<close>

definition analyze_image_basic ::
  "'img pillow \<Rightarrow> (pyval \<Rightarrow> int) \<Rightarrow> (pyval list \<Rightarrow> pyval list) \<Rightarrow> 8 word list \<Rightarrow> pydict" where
  "analyze_image_basic P H set_order image_bytes =
     (case analyze_image_body P H set_order image_bytes of
        Inl e \<Rightarrow> [(''error'', PStr (exc_str e))]
      | Inr result \<Rightarrow> result)"

section \<open>Query Embedding Encoder: \<^verbatim>\<open>semantic_search\<close>\<close>

text \<open>
  A query is a string of characters with code points below 256. \<^verbatim>\<open>str.lower\<close> maps the
  letters A--Z (65--90) and the capital letters 192--214 and 216--222 to the letter 32
  code points above; \<^verbatim>\<open>str.split()\<close> cuts at runs of whitespace (tab, line feed,
  vertical tab, form feed, carriage return, the four separators 28--31, space, next line
  133, no-break space 160) and yields no empty token.
\<close>

definition lower_char :: "char \<Rightarrow> char" where
  "lower_char c =
     (let n = (of_char c :: nat)
      in if (65 \<le> n \<and> n \<le> 90) \<or> (192 \<le> n \<and> n \<le> 214) \<or> (216 \<le> n \<and> n \<le> 222)
         then char_of (n + 32) else c)"

definition lower :: "string \<Rightarrow> string" where
  "lower s = map lower_char s"

definition is_space :: "char \<Rightarrow> bool" where
  "is_space c =
     (let n = (of_char c :: nat)
      in (9 \<le> n \<and> n \<le> 13) \<or> (28 \<le> n \<and> n \<le> 32) \<or> n = 133 \<or> n = 160)"

text \<open>\<open>split_from s cur\<close>: the tokens of \<open>s\<close>, where \<open>cur\<close> is the token being read.\<close>

fun split_from :: "string \<Rightarrow> string \<Rightarrow> string list" where
  "split_from [] cur = (if cur = [] then [] else [cur])"
| "split_from (c # cs) cur =
     (if is_space c then (if cur = [] then split_from cs [] else cur # split_from cs [])
      else split_from cs (cur @ [c]))"

definition split :: "string \<Rightarrow> string list" where
  "split s = split_from s []"

text \<open>\<^verbatim>\<open>color in word\<close> on strings: \<open>color\<close> occurs in \<open>word\<close> as a contiguous substring.\<close>

fun is_substring :: "string \<Rightarrow> string \<Rightarrow> bool" where
  "is_substring xs [] = (xs = [])"
| "is_substring xs (y # ys) = (prefix xs (y # ys) \<or> is_substring xs ys)"

definition color_words :: "string list" where
  "color_words =
     [''red'', ''green'', ''blue'', ''yellow'', ''purple'', ''orange'', ''pink'', ''brown'',
      ''black'', ''white'', ''gray'']"

text \<open>\<^verbatim>\<open>for i, color in enumerate(color_words): if any(color in word for word in words):
  embedding[i] = 1.0\<close>\<close>

fun color_word_features :: "nat \<Rightarrow> string list \<Rightarrow> string list \<Rightarrow> rat list \<Rightarrow> rat list" where
  "color_word_features i [] words embedding = embedding"
| "color_word_features i (color # rest) words embedding =
     color_word_features (Suc i) rest words
       (if list_ex (\<lambda>word. is_substring color word) words then embedding[i := 1] else embedding)"

text \<open>\<^verbatim>\<open>if any(word in vocabulary for word in words): embedding[slot] = 1.0\<close>\<close>

definition word_feature :: "string list \<Rightarrow> nat \<Rightarrow> string list \<Rightarrow> rat list \<Rightarrow> rat list" where
  "word_feature vocabulary slot words embedding =
     (if list_ex (\<lambda>word. word \<in> set vocabulary) words then embedding[slot := 1] else embedding)"

text \<open>The embedding that the handler computes from \<^verbatim>\<open>data['query']\<close>.\<close>

definition query_embedding :: "string \<Rightarrow> rat list" where
  "query_embedding query =
     (let words = split (lower query);
          embedding = replicate 50 0;
          embedding = color_word_features 0 color_words words embedding;
          embedding = word_feature [''bright'', ''light'', ''sunny''] 13 words embedding;
          embedding = word_feature [''dark'', ''night'', ''shadow''] 14 words embedding;
          embedding = word_feature [''wide'', ''landscape'', ''horizontal''] 11 words embedding;
          embedding = word_feature [''tall'', ''portrait'', ''vertical''] 12 words embedding
      in embedding)"

text \<open>The JSON object of the response.\<close>

definition semantic_search :: "string \<Rightarrow> pydict" where
  "semantic_search query =
     [(''query'', PStr query), (''embedding'', PList (map PFloat (query_embedding query)))]"

section \<open>A raster model of Pillow\<close>

text \<open>
  Claims about the pixels of an image need an instance of the interface. A raster has a
  mode (\<open>RGB\<close> with three bands or \<open>L\<close> with one), a size, and the band values of each
  pixel.
  \<^item> The mean of a band is the sum of its values over all pixels divided by the number of
    pixels; on an image without pixels \<^verbatim>\<open>ImageStat\<close> gives the mean 0 for every band
    (Pillow 12; it does not raise).
  \<^item> \<^verbatim>\<open>crop\<close> copies the box \<open>(x0, y0, x1, y1)\<close> (left, upper, right, lower); pixels of
    the box outside the image are zero; a box whose right or lower edge lies before its
    left or upper edge raises \<^verbatim>\<open>ValueError\<close>.
  \<^item> \<^verbatim>\<open>convert('L')\<close> of an RGB image is the ITU-R 601-2 luma transform in the
    fixed-point form of the library.
  The decoder is a parameter of the instance.
\<close>

record raster =
  r_mode :: string
  r_width :: nat
  r_height :: nat
  r_pixel :: "nat \<Rightarrow> nat \<Rightarrow> nat list"

definition raster_bands :: "raster \<Rightarrow> nat" where
  "raster_bands img = (if r_mode img = ''RGB'' then 3 else 1)"

definition raster_coords :: "raster \<Rightarrow> (nat \<times> nat) list" where
  "raster_coords img = List.product [0..<r_width img] [0..<r_height img]"

definition raster_stat_mean :: "raster \<Rightarrow> exc + rat list" where
  "raster_stat_mean img =
     (let count = r_width img * r_height img
      in Inr (map (\<lambda>band.
                if count = 0 then 0
                else of_nat (sum_list (map (\<lambda>(x, y). r_pixel img x y ! band) (raster_coords img)))
                       / of_nat count)
              [0..<raster_bands img]))"

definition raster_crop :: "raster \<Rightarrow> nat \<times> nat \<times> nat \<times> nat \<Rightarrow> exc + raster" where
  "raster_crop img box =
     (case box of (x0, y0, x1, y1) \<Rightarrow>
        if x1 < x0 \<or> y1 < y0
        then Inl (Exc ''ValueError'' ''Coordinate right or lower is less than left or upper'')
        else Inr (img\<lparr>r_width := x1 - x0, r_height := y1 - y0,
                       r_pixel := (\<lambda>x y. if x0 + x < r_width img \<and> y0 + y < r_height img
                                          then r_pixel img (x0 + x) (y0 + y)
                                          else replicate (raster_bands img) 0)\<rparr>))"

definition luma :: "nat list \<Rightarrow> nat" where
  "luma p = (case p of
               [r, g, b] \<Rightarrow> (r * 19595 + g * 38470 + b * 7471 + 32768) div 65536
             | _ \<Rightarrow> 0)"

definition raster_convert :: "raster \<Rightarrow> string \<Rightarrow> exc + raster" where
  "raster_convert img m =
     (if m = r_mode img then Inr img
      else if r_mode img = ''RGB'' \<and> m = ''L''
        then Inr (img\<lparr>r_mode := ''L'', r_pixel := (\<lambda>x y. [luma (r_pixel img x y)])\<rparr>)
      else if r_mode img = ''L'' \<and> m = ''RGB''
        then Inr (img\<lparr>r_mode := ''RGB'', r_pixel := (\<lambda>x y. replicate 3 (hd (r_pixel img x y)))\<rparr>)
      else Inl (Exc ''ValueError'' ''conversion not supported''))"

definition raster_pillow :: "(8 word list \<Rightarrow> exc + raster) \<Rightarrow> raster pillow" where
  "raster_pillow decode =
     \<lparr>image_open = decode,
      image_mode = r_mode,
      image_size = (\<lambda>img. (r_width img, r_height img)),
      image_convert = raster_convert,
      image_crop = raster_crop,
      stat_mean = raster_stat_mean\<rparr>"


section \<open>Vocabulary of the properties\<close>

text \<open>A float in the closed interval from 0 to 1.\<close>

fun unit_float :: "pyval \<Rightarrow> bool" where
  "unit_float (PFloat x) = (0 \<le> x \<and> x \<le> 1)"
| "unit_float v = False"

text \<open>
  The slots that the Image Embedding Encoder writes for an analysis result: the slot of
  every color of the result that is a key of \<open>color_map\<close>, the slot of every object whose
  name is a key of \<open>object_features\<close>, one slot from 18 on for each of the first 20
  emotions, one slot from 38 on for each of the first 12 keywords. All other slots are
  unused.
\<close>

definition iterated :: "pyval \<Rightarrow> pyval list" where
  "iterated v = (case py_iter v of Inl e \<Rightarrow> [] | Inr xs \<Rightarrow> xs)"

definition color_slot :: "pyval \<Rightarrow> nat option" where
  "color_slot color = (case key_lookup color_map color of Inr (Some i) \<Rightarrow> Some i | _ \<Rightarrow> None)"

definition object_slot :: "pyval \<Rightarrow> nat option" where
  "object_slot obj =
     (case py_get obj ''name'' (PStr []) of
        Inl e \<Rightarrow> None
      | Inr obj_name \<Rightarrow>
          (case key_lookup object_features obj_name of Inr (Some i) \<Rightarrow> Some i | _ \<Rightarrow> None))"

definition written_slots :: "pydict \<Rightarrow> nat list" where
  "written_slots analysis_result =
     List.map_filter color_slot (iterated (dict_get analysis_result ''colors'' (PList [])))
     @ List.map_filter object_slot (iterated (dict_get analysis_result ''objects'' (PList [])))
     @ (case py_items (dict_get analysis_result ''emotions'' (PDict [])) of
          Inl e \<Rightarrow> []
        | Inr items \<Rightarrow> [18..<18 + min 20 (length items)])
     @ (case py_slice_to 12 (dict_get analysis_result ''search_keywords'' (PList [])) of
          Inl e \<Rightarrow> []
        | Inr first_keywords \<Rightarrow> [38..<38 + length (iterated first_keywords)])"

text \<open>The keys of a successful analysis result, in the order of the dict.\<close>

definition result_keys :: "string list" where
  "result_keys =
     [''objects'', ''text'', ''caption'', ''emotions'', ''colors'', ''search_keywords'',
      ''relationships'', ''semantic_concepts'', ''clip_embedding'']"

text \<open>The names of the resolution tiers.\<close>

definition resolution_tiers :: "string list" where
  "resolution_tiers = [''high_resolution'', ''medium_resolution'', ''low_resolution'']"

definition is_resolution_tier :: "pydict \<Rightarrow> bool" where
  "is_resolution_tier obj \<longleftrightarrow> (\<exists>name \<in> set resolution_tiers. map_of obj ''name'' = Some (PStr name))"

text \<open>All scores of a dict lie between two bounds.\<close>

definition scores_in :: "rat \<Rightarrow> rat \<Rightarrow> (string \<times> rat) list \<Rightarrow> bool" where
  "scores_in lo hi d \<longleftrightarrow> (\<forall>kv \<in> set d. lo \<le> snd kv \<and> snd kv \<le> hi)"

text \<open>The dict of a successful analysis, from the values of its fields.\<close>

definition assembled_result ::
  "pydict list \<Rightarrow> string \<Rightarrow> (string \<times> rat) list \<Rightarrow> string list \<Rightarrow> pyval list \<Rightarrow> pydict list
     \<Rightarrow> pyval list \<Rightarrow> pydict" where
  "assembled_result objects caption emotions colors keywords concepts embedding =
     [(''objects'', PList (map PDict objects)),
      (''text'', PList []),
      (''caption'', PStr caption),
      (''emotions'', PDict (map (\<lambda>(emotion, v). (emotion, PFloat v)) emotions)),
      (''colors'', PList (map PStr colors)),
      (''search_keywords'', PList keywords),
      (''relationships'', PList []),
      (''semantic_concepts'', PList (map PDict concepts)),
      (''clip_embedding'', PList embedding)]"

section \<open>Example inputs\<close>

text \<open>Small rasters, a decoder that yields a given raster, an image file that cannot be
  loaded and a hash function, on which the theorems below are instantiated.\<close>

definition example_solid :: raster where
  "example_solid =
     \<lparr>r_mode = ''RGB'', r_width = 2, r_height = 2, r_pixel = (\<lambda>x y. [10, 20, 200])\<rparr>"


text \<open>
  A truncated RGB file: the header decodes, so the mode and the size are known, but every
  operation that loads the pixels raises \<^verbatim>\<open>OSError\<close>. The image handle carries no data.
\<close>

definition truncated_pillow :: "nat \<Rightarrow> nat \<Rightarrow> unit pillow" where
  "truncated_pillow width height =
     \<lparr>image_open = (\<lambda>image_bytes. Inr ()),
      image_mode = (\<lambda>img. ''RGB''),
      image_size = (\<lambda>img. (width, height)),
      image_convert = (\<lambda>img m. Inl (Exc ''OSError'' ''image file is truncated'')),
      image_crop = (\<lambda>img box. Inl (Exc ''OSError'' ''image file is truncated'')),
      stat_mean = (\<lambda>img. Inl (Exc ''OSError'' ''image file is truncated''))\<rparr>"

definition example_decode :: "raster \<Rightarrow> 8 word list \<Rightarrow> exc + raster" where
  "example_decode img image_bytes = Inr img"

definition example_hash :: "pyval \<Rightarrow> int" where
  "example_hash v =
     (case v of PStr s \<Rightarrow> - int (sum_list (map of_char s)) | PInt n \<Rightarrow> n | _ \<Rightarrow> 0)"

section \<open>Properties of the Color Classifier\<close>

lemma sqrt_order_is_square_order:
  "sqrt (real_of_int (sq_distance r g b t)) < sqrt (real_of_int (sq_distance r g b t'))
     \<longleftrightarrow> sq_distance r g b t < sq_distance r g b t'"
  by simp

lemma py_int_of_int: "py_int (of_int n) = n"
  by (simp add: py_int_def)

lemma py_int_of_nat: "py_int (of_nat n) = int n"
  by (simp add: py_int_def)

lemma scan_prototypes_fst:
  "fst st \<noteq> None \<Longrightarrow> fst (scan_prototypes r g b name ts st) \<noteq> None"
  by (induction r g b name ts st rule: scan_prototypes.induct) (simp_all add: Let_def)

lemma scan_prototypes_snd:
  "snd (scan_prototypes r g b name ts st) = snd st \<or> snd (scan_prototypes r g b name ts st) = name"
  by (induction r g b name ts st rule: scan_prototypes.induct) (auto simp: Let_def)

lemma scan_prototypes_first:
  "ts \<noteq> [] \<Longrightarrow>
     fst (scan_prototypes r g b name ts (None, c)) \<noteq> None \<and>
     snd (scan_prototypes r g b name ts (None, c)) = name"
proof (cases ts)
  case Nil
  then show "ts \<noteq> [] \<Longrightarrow> ?thesis" by simp
next
  case (Cons t ts')
  have "fst (scan_prototypes r g b name ts' (Some (sq_distance r g b t), name)) \<noteq> None"
    by (rule scan_prototypes_fst) simp
  moreover have "snd (scan_prototypes r g b name ts' (Some (sq_distance r g b t), name)) = name"
    using scan_prototypes_snd [of r g b name ts' "(Some (sq_distance r g b t), name)"] by auto
  ultimately show ?thesis using Cons by (simp add: closer_def)
qed

lemma scan_palette_names:
  "fst st \<noteq> None \<Longrightarrow> snd st \<in> N \<Longrightarrow> fst ` set pal \<subseteq> N \<Longrightarrow>
     snd (scan_palette r g b pal st) \<in> N"
proof (induction r g b pal st rule: scan_palette.induct)
  case (1 r g b st)
  then show ?case by simp
next
  case (2 r g b color_name rgb_values rest st)
  let ?st = "scan_prototypes r g b color_name rgb_values st"
  have "fst ?st \<noteq> None" using 2(2) by (rule scan_prototypes_fst)
  moreover have "snd ?st \<in> N"
    using scan_prototypes_snd [of r g b color_name rgb_values st] 2(3,4) by auto
  ultimately show ?case using 2 by simp
qed

lemma closest_palette_color_name: "closest_palette_color r g b \<in> set palette_names"
proof -
  obtain rest where pal: "color_names = (''red'', [(255, 0, 0), (139, 0, 0), (220, 20, 60)]) # rest"
    by (simp add: color_names_def)
  let ?st = "scan_prototypes r g b ''red'' [(255, 0, 0), (139, 0, 0), (220, 20, 60)] (None, ''mixed'')"
  have st: "fst ?st \<noteq> None \<and> snd ?st = ''red''"
    by (rule scan_prototypes_first) simp
  have "snd (scan_palette r g b rest ?st) \<in> set palette_names"
  proof (rule scan_palette_names)
    show "fst ?st \<noteq> None" using st by simp
    show "snd ?st \<in> set palette_names" using st by (simp add: palette_names_def color_names_def)
    show "fst ` set rest \<subseteq> set palette_names" by (auto simp: palette_names_def pal)
  qed
  then show ?thesis by (simp add: closest_palette_color_def pal)
qed

lemma rgb_to_color_name_palette: "rgb_to_color_name r g b \<in> set palette_names"
proof -
  have "''black'' \<in> set palette_names" "''white'' \<in> set palette_names" "''gray'' \<in> set palette_names"
    by (simp_all add: palette_names_def color_names_def)
  then show ?thesis
    using closest_palette_color_name by (simp add: rgb_to_color_name_def Let_def)
qed

lemma mixed_not_palette: "''mixed'' \<notin> set palette_names"
  by (simp add: palette_names_def color_names_def)

text \<open>
  Claim C4, as the code has it. The classifier first truncates the three channels to the
  integers \<open>R\<close>, \<open>G\<close>, \<open>B\<close>. When these differ pairwise by less than 30, it answers
  from \<open>R\<close> alone, without looking at the palette: black when \<open>R\<close> is below 60, white
  when it is above 200, gray otherwise.
\<close>

theorem grayscale_classification:
  assumes "R = py_int r" and "G = py_int g" and "B = py_int b"
    and "\<bar>R - G\<bar> < 30" and "\<bar>G - B\<bar> < 30" and "\<bar>R - B\<bar> < 30"
  shows "rgb_to_color_name r g b =
           (if R < 60 then ''black'' else if R > 200 then ''white'' else ''gray'')"
  using assms by (simp add: rgb_to_color_name_def is_grayscale_def Let_def)

theorem grayscale_classification_witness:
  "\<bar>py_int 210 - py_int 205\<bar> < 30 \<and> \<bar>py_int 205 - py_int 220\<bar> < 30 \<and> \<bar>py_int 210 - py_int 220\<bar> < 30
     \<and> rgb_to_color_name 210 205 220 = ''white''"
  using grayscale_classification [of "py_int 210" 210 "py_int 205" 205 "py_int 220" 220]
  by (simp add: py_int_def)

lemma rgb_to_color_name_truncates:
  "rgb_to_color_name r g b
     = rgb_to_color_name (of_int (py_int r)) (of_int (py_int g)) (of_int (py_int b))"
  by (simp add: rgb_to_color_name_def py_int_of_int)

lemma py_int_examples: "py_int (401/2) = 200" "py_int (2009/10) = 200" "py_int 230 = 230"
proof -
  have "\<lfloor>401/2 :: rat\<rfloor> = 200" and "\<lfloor>2009/10 :: rat\<rfloor> = 200"
    by (rule floor_unique, simp, simp)+
  then show "py_int (401/2) = 200" and "py_int (2009/10) = 200"
    by (simp_all add: py_int_def)
  show "py_int 230 = 230" by (simp add: py_int_def)
qed

lemma gray_200_200_200: "rgb_to_color_name 200 200 200 = ''gray''"
  by (simp add: rgb_to_color_name_def is_grayscale_def Let_def py_int_def)

lemma pink_230_200_200: "rgb_to_color_name 230 200 200 = ''pink''"
  by (simp add: rgb_to_color_name_def is_grayscale_def Let_def py_int_def
        closest_palette_color_def color_names_def closer_def sq_distance_def)

text \<open>
  On the channels themselves the claim fails. The mean \<open>(200.5, 200.5, 200.5)\<close> has a gray
  channel above 200 and is classified gray, not white. The mean \<open>(230, 200.9, 200.9)\<close> has
  channels less than 30 apart, but the truncated channels are exactly 30 apart and the
  palette answers pink. The triple \<open>(230, 200, 200)\<close>, exactly 30 apart, is pink as well.
\<close>

theorem grayscale_claim_counterexample:
  "\<bar>(401/2 :: rat) - 401/2\<bar> < 30 \<and> (200 :: rat) < 401/2
   \<and> rgb_to_color_name (401/2) (401/2) (401/2) = ''gray''
   \<and> \<bar>(230 :: rat) - 2009/10\<bar> < 30 \<and> \<bar>(2009/10 :: rat) - 2009/10\<bar> < 30 \<and> (200 :: rat) < 230
   \<and> rgb_to_color_name 230 (2009/10) (2009/10) = ''pink''
   \<and> \<bar>(230 :: rat) - 200\<bar> \<le> 30 \<and> \<bar>(200 :: rat) - 200\<bar> \<le> 30
   \<and> rgb_to_color_name 230 200 200 = ''pink''"
proof -
  have "rgb_to_color_name (401/2) (401/2) (401/2) = ''gray''"
    using rgb_to_color_name_truncates [of "401/2" "401/2" "401/2"]
    by (simp add: py_int_examples gray_200_200_200)
  moreover have "rgb_to_color_name 230 (2009/10) (2009/10) = ''pink''"
    using rgb_to_color_name_truncates [of 230 "2009/10" "2009/10"]
    by (simp add: py_int_examples pink_230_200_200)
  ultimately show ?thesis
    using pink_230_200_200 by simp
qed

section \<open>Properties of the Emotion Mapper\<close>

text \<open>
  Claim C3. For the detected colors \<open>["blue"]\<close> and brightness 128 the Emotion Mapper
  returns the dict with exactly the four entries calm 0.8, peaceful 0.7, cool 0.6 and
  balanced 0.6, in this order of insertion.
\<close>

theorem emotion_mapper_blue_128:
  "analyze_emotions_from_colors [''blue''] 128 =
     [(''calm'', 8/10), (''peaceful'', 7/10), (''cool'', 6/10), (''balanced'', 6/10)]"
  by (simp add: analyze_emotions_from_colors_def normalize_emotions_def
        brightness_based_emotions_def color_emotions_def dict_get_def)

section \<open>Properties of the Query Embedding Encoder\<close>

text \<open>
  Claim C5. The query \<open>bright blue sky\<close> has the tokens bright, blue and sky. Its
  embedding has 50 elements; slot 2 (blue) is 1.0, slot 13 (bright) is 1.0, and the 35
  slots from 15 to 49 are all 0.0.
\<close>

theorem query_bright_blue_sky:
  "length (query_embedding ''bright blue sky'') = 50
   \<and> query_embedding ''bright blue sky'' ! 2 = 1
   \<and> query_embedding ''bright blue sky'' ! 13 = 1
   \<and> drop 15 (query_embedding ''bright blue sky'') = replicate 35 0
   \<and> split (lower ''bright blue sky'') = [''bright'', ''blue'', ''sky'']"
  by code_simp

section \<open>The slot layout shared by the two encoders\<close>

text \<open>
  Claim C1. The Query Encoder writes the color at position \<open>i\<close> of \<open>color_words\<close> to
  slot \<open>i\<close>, and the Image Encoder writes it to slot \<open>color_map[color]\<close>; for each of the
  11 color names (red, green, blue, yellow, purple, orange, pink, brown, black, white,
  gray, slots 0 to 10) the two slots are equal: an analysis result with that single color
  and a query that is that color name set the same single slot. Likewise the pseudo-objects
  landscape, portrait, bright_image and dark_image are written by the Image Encoder to the
  slots 11, 12, 13 and 14, which are the slots that the Query Encoder writes for the words
  landscape, portrait, bright and dark.
\<close>

theorem shared_slot_layout:
  "color_words = [''red'', ''green'', ''blue'', ''yellow'', ''purple'', ''orange'', ''pink'',
                  ''brown'', ''black'', ''white'', ''gray'']
   \<and> list_all (\<lambda>(i, color).
         map_of color_map color = Some i
         \<and> generate_simple_embedding H [(''colors'', PList [PStr color])]
             = (replicate 50 (PFloat 0))[i := PFloat 1]
         \<and> query_embedding color = (replicate 50 0)[i := 1])
       (enumerate 0 color_words)
   \<and> list_all (\<lambda>(i, label, word).
         map_of object_features label = Some i
         \<and> generate_simple_embedding H
               [(''objects'', PList [PDict (pseudo_object label confidence width height)])]
             = (replicate 50 (PFloat 0))[i := PFloat confidence]
         \<and> query_embedding word = (replicate 50 0)[i := 1])
       [(11, ''landscape'', ''landscape''), (12, ''portrait'', ''portrait''),
        (13, ''bright_image'', ''bright''), (14, ''dark_image'', ''dark'')]"
  by code_simp

section \<open>Properties of the Region Color Aggregator\<close>

lemma count_regions_keys:
  "fst ` set color_counts \<subseteq> N \<Longrightarrow>
   (\<forall>region \<in> set rs. \<forall>c. region_color P img region = Inr c \<longrightarrow> c \<in> N) \<Longrightarrow>
   fst ` set (count_regions P img rs color_counts) \<subseteq> N"
proof (induction rs arbitrary: color_counts)
  case Nil
  then show ?case by simp
next
  case (Cons region rs)
  show ?case
  proof (cases "region_color P img region")
    case (Inl e)
    then show ?thesis using Cons by simp
  next
    case (Inr c)
    then have "c \<in> N" using Cons.prems(2) by simp
    then have "fst ` set (AList.update c (dict_get color_counts c 0 + 1) color_counts) \<subseteq> N"
      using Cons.prems(1) by (simp add: AList.dom_update)
    then show ?thesis using Inr Cons by simp
  qed
qed


lemma sorted_by_count_set: "set (sorted_by_count xs) = set xs"
  by (simp add: sorted_by_count_def)

lemma append_new_prefix: "\<exists>ys. append_new xs colors = colors @ ys"
  by (induction xs colors rule: append_new.induct) auto

lemma append_new_set: "set (append_new xs colors) \<subseteq> set colors \<union> fst ` set xs"
  by (induction xs colors rule: append_new.induct) (auto simp: image_iff split: if_splits)

lemma append_new_distinct: "distinct colors \<Longrightarrow> distinct (append_new xs colors)"
  by (induction xs colors rule: append_new.induct) auto


lemma analyze_colors_failure:
  "mean_rgb P img = Inl e \<Longrightarrow> analyze_colors P img = [''mixed'']"
  by (simp add: analyze_colors_def)

lemma analyze_colors_success:
  assumes "mean_rgb P img = Inr (r, g, b)"
  shows "\<exists>ys. analyze_colors P img = rgb_to_color_name r g b # ys
              \<and> distinct (rgb_to_color_name r g b # ys)
              \<and> set ys \<subseteq> set palette_names"
proof -
  obtain width height where sz: "image_size P img = (width, height)" by (cases "image_size P img")
  let ?d = "rgb_to_color_name r g b"
  let ?xs = "take 4 (sorted_by_count (count_regions P img (regions width height) []))"
  have ac: "analyze_colors P img = take 3 (append_new ?xs [?d])"
    using assms sz by (simp add: analyze_colors_def Let_def)
  obtain zs where zs: "append_new ?xs [?d] = ?d # zs"
    using append_new_prefix [of ?xs "[?d]"] by auto
  have dist: "distinct (?d # zs)"
    using append_new_distinct [of "[?d]" ?xs] zs by simp
  have "fst ` set (count_regions P img (regions width height) []) \<subseteq> set palette_names"
    by (rule count_regions_keys)
      (auto simp: region_color_def rgb_to_color_name_palette split: sum.splits prod.splits)
  then have "fst ` set ?xs \<subseteq> set palette_names"
    using set_take_subset [of 4 "sorted_by_count (count_regions P img (regions width height) [])"]
    by (auto simp: sorted_by_count_set)
  then have "set (?d # zs) \<subseteq> set palette_names"
    using append_new_set [of ?xs "[?d]"] zs rgb_to_color_name_palette [of r g b] by (simp del: set_take_subset) blast
  then have sub: "set zs \<subseteq> set palette_names" by simp
  have "analyze_colors P img = ?d # take 2 zs"
    using ac zs by (simp add: numeral_3_eq_3 numeral_2_eq_2)
  moreover have "distinct (?d # take 2 zs)"
    using dist by (auto dest: in_set_takeD)
  moreover have "set (take 2 zs) \<subseteq> set palette_names"
    using sub by (auto dest: in_set_takeD)
  ultimately show ?thesis by blast
qed

lemma analyze_colors_length: "length (analyze_colors P img) \<le> 3"
  by (auto simp: analyze_colors_def Let_def split: sum.splits prod.splits)

lemma analyze_colors_mixed:
  "''mixed'' \<in> set (analyze_colors P img) \<Longrightarrow> \<exists>e. mean_rgb P img = Inl e"
proof (cases "mean_rgb P img")
  case (Inl e)
  then show ?thesis by blast
next
  case (Inr m)
  obtain r g b where "m = (r, g, b)" by (cases m) auto
  with Inr obtain ys where ys: "analyze_colors P img = rgb_to_color_name r g b # ys"
      "set ys \<subseteq> set palette_names"
    using analyze_colors_success [of P img r g b] by blast
  assume "''mixed'' \<in> set (analyze_colors P img)"
  then have "''mixed'' \<in> set palette_names"
    using ys rgb_to_color_name_palette [of r g b] by auto
  then show ?thesis using mixed_not_palette by simp
qed





















text \<open>
  Claim C10. The nearest-prototype search returns one of the 11 palette names for every
  input, in particular for every input that fails the grayscale test, so the classifier
  never answers \<open>mixed\<close>; and \<open>mixed\<close> is in the list of detected colors only when the
  mean of the whole image could not be computed, in which case the list is the fallback
  \<open>["mixed"]\<close>.
\<close>

theorem mixed_only_from_fallback:
  "closest_palette_color R G B
     \<in> {''red'', ''green'', ''blue'', ''yellow'', ''purple'', ''orange'', ''pink'', ''brown'',
        ''gray'', ''black'', ''white''}
   \<and> (\<not> is_grayscale (py_int r) (py_int g) (py_int b) \<longrightarrow>
        rgb_to_color_name r g b = closest_palette_color (py_int r) (py_int g) (py_int b)
        \<and> rgb_to_color_name r g b \<noteq> ''mixed'')
   \<and> (''mixed'' \<in> set (analyze_colors P img) \<longrightarrow>
        (\<exists>e. mean_rgb P img = Inl e) \<and> analyze_colors P img = [''mixed''])"
proof (intro conjI impI)
  have "closest_palette_color R G B \<in> set palette_names"
    by (rule closest_palette_color_name)
  then show "closest_palette_color R G B
     \<in> {''red'', ''green'', ''blue'', ''yellow'', ''purple'', ''orange'', ''pink'', ''brown'',
        ''gray'', ''black'', ''white''}"
    by (simp add: palette_names_def color_names_def)
next
  assume "\<not> is_grayscale (py_int r) (py_int g) (py_int b)"
  then show "rgb_to_color_name r g b = closest_palette_color (py_int r) (py_int g) (py_int b)"
    by (simp add: rgb_to_color_name_def Let_def)
next
  show "rgb_to_color_name r g b \<noteq> ''mixed''"
    using rgb_to_color_name_palette [of r g b] mixed_not_palette by auto
next
  assume mixed: "''mixed'' \<in> set (analyze_colors P img)"
  then show "\<exists>e. mean_rgb P img = Inl e" by (rule analyze_colors_mixed)
  then show "analyze_colors P img = [''mixed'']" by (auto simp: analyze_colors_failure)
qed

lemma truncated_mean:
  "mean_rgb (truncated_pillow 4 3) () = Inl (Exc ''OSError'' ''image file is truncated'')"
  by (simp add: mean_rgb_def truncated_pillow_def)

lemma truncated_colors: "analyze_colors (truncated_pillow 4 3) () = [''mixed'']"
  using truncated_mean by (rule analyze_colors_failure)

theorem mixed_only_from_fallback_witness:
  "\<not> is_grayscale (py_int 250) (py_int 10) (py_int 20)
   \<and> rgb_to_color_name 250 10 20 = closest_palette_color 250 10 20
   \<and> ''mixed'' \<in> set (analyze_colors (truncated_pillow 4 3) ())
   \<and> (\<exists>e. mean_rgb (truncated_pillow 4 3) () = Inl e)"
  using mixed_only_from_fallback [of 0 0 0 250 10 20 "truncated_pillow 4 3" "()"]
    truncated_colors
  by (simp add: is_grayscale_def py_int_def)

section \<open>Properties of the Image Embedding Encoder\<close>

lemma bind_exc_Inr [simp]: "bind_exc (Inr v) f = f v"
  by (simp add: bind_exc_def)

lemma bind_exc_Inl [simp]: "bind_exc (Inl e) f = Inl e"
  by (simp add: bind_exc_def)

lemma bind_exc_eq_Inr:
  "bind_exc m f = Inr y \<longleftrightarrow> (\<exists>v. m = Inr v \<and> f v = Inr y)"
  by (cases m) simp_all

lemma list_all_unit_update:
  "list_all unit_float f \<Longrightarrow> unit_float v \<Longrightarrow> list_all unit_float (f[i := v])"
  by (induction f arbitrary: i) (auto split: nat.splits)

subsection \<open>The color loop\<close>

lemma color_features_length:
  "color_features xs f = Inr f' \<Longrightarrow> length f' = length f"
  by (induction xs arbitrary: f) (auto split: sum.splits option.splits)

lemma color_features_frame:
  "color_features xs f = Inr f' \<Longrightarrow> j \<notin> set (List.map_filter color_slot xs) \<Longrightarrow> f' ! j = f ! j"
proof (induction xs arbitrary: f)
  case Nil
  then show ?case by simp
next
  case (Cons c xs)
  show ?case
  proof (cases "key_lookup color_map c")
    case (Inl e)
    then show ?thesis using Cons.prems by simp
  next
    case (Inr slot)
    show ?thesis
    proof (cases slot)
      case None
      then have "color_slot c = None" using Inr by (simp add: color_slot_def)
      then show ?thesis
        using Cons Inr None by (simp add: map_filter_simps)
    next
      case (Some i)
      then have "color_slot c = Some i" using Inr by (simp add: color_slot_def)
      then have "j \<noteq> i" and "j \<notin> set (List.map_filter color_slot xs)"
        using Cons.prems(2) by (simp_all add: map_filter_simps)
      moreover have "color_features xs (f[i := PFloat 1]) = Inr f'"
        using Cons.prems(1) Inr Some by simp
      ultimately show ?thesis using Cons.IH by fastforce
    qed
  qed
qed

lemma color_features_strings:
  "\<exists>f'. color_features (map PStr cs) f = Inr f'
        \<and> (list_all unit_float f \<longrightarrow> list_all unit_float f')
        \<and> (\<forall>j \<ge> 11. f' ! j = f ! j)"
proof (induction cs arbitrary: f)
  case Nil
  then show ?case by simp
next
  case (Cons c cs)
  show ?case
  proof (cases "map_of color_map c")
    case None
    then show ?thesis using Cons [of f] by (simp add: key_lookup_def)
  next
    case (Some i)
    then have "(c, i) \<in> set color_map" by (rule map_of_SomeD)
    then have i: "i < 11" by (auto simp: color_map_def)
    obtain f' where f': "color_features (map PStr cs) (f[i := PFloat 1]) = Inr f'"
      "list_all unit_float (f[i := PFloat 1]) \<longrightarrow> list_all unit_float f'"
      "\<forall>j \<ge> 11. f' ! j = (f[i := PFloat 1]) ! j"
      using Cons [of "f[i := PFloat 1]"] by blast
    have "list_all unit_float f \<longrightarrow> list_all unit_float f'"
      using f'(2) by (simp add: list_all_unit_update)
    moreover have "\<forall>j \<ge> 11. f' ! j = f ! j"
      using f'(3) i by simp
    ultimately show ?thesis using f'(1) Some by (simp add: key_lookup_def)
  qed
qed

subsection \<open>The object loop\<close>

lemma object_feature_loop_length:
  "object_feature_loop xs f = Inr f' \<Longrightarrow> length f' = length f"
proof (induction xs arbitrary: f)
  case Nil
  then show ?case by simp
next
  case (Cons obj xs)
  then show ?case
    by (auto simp: bind_exc_eq_Inr split: option.splits)
qed

lemma object_feature_loop_frame:
  "object_feature_loop xs f = Inr f' \<Longrightarrow> j \<notin> set (List.map_filter object_slot xs) \<Longrightarrow>
     f' ! j = f ! j"
proof (induction xs arbitrary: f)
  case Nil
  then show ?case by simp
next
  case (Cons obj xs)
  from Cons.prems(1) [unfolded object_feature_loop.simps bind_exc_eq_Inr]
  obtain obj_name slot where
    n: "py_get obj ''name'' (PStr []) = Inr obj_name"
    and s: "key_lookup object_features obj_name = Inr slot"
    and rest: "(case slot of
                  None \<Rightarrow> object_feature_loop xs f
                | Some i \<Rightarrow> bind_exc (py_get obj ''confidence'' (PFloat (5/10)))
                             (\<lambda>confidence. object_feature_loop xs (f[i := confidence]))) = Inr f'"
    by blast
  show ?case
  proof (cases slot)
    case None
    then have "object_slot obj = None" using n s by (simp add: object_slot_def)
    then show ?thesis
      using Cons None rest by (simp add: map_filter_simps)
  next
    case (Some i)
    then obtain confidence where c: "object_feature_loop xs (f[i := confidence]) = Inr f'"
      using rest by (auto simp: bind_exc_eq_Inr)
    have "object_slot obj = Some i" using n s Some by (simp add: object_slot_def)
    then have "j \<noteq> i" and "j \<notin> set (List.map_filter object_slot xs)"
      using Cons.prems(2) by (simp_all add: map_filter_simps)
    then show ?thesis using Cons.IH [OF c] by simp
  qed
qed

lemma object_feature_loop_pseudo:
  "object_feature_loop (PDict (pseudo_object name c w h) # rest) f =
     object_feature_loop rest
       (case map_of object_features name of None \<Rightarrow> f | Some i \<Rightarrow> f[i := PFloat c])"
  by (simp add: py_get_def pseudo_object_def dict_get_def key_lookup_def split: option.splits)

subsection \<open>The emotion loop\<close>

lemma emotion_features_length: "length (emotion_features i items f) = length f"
  by (induction i items f rule: emotion_features.induct) simp_all

lemma emotion_features_frame:
  "j < 18 + i \<or> 18 + i + length items \<le> j \<Longrightarrow> emotion_features i items f ! j = f ! j"
  by (induction i items f rule: emotion_features.induct) auto

lemma emotion_features_unit:
  "list_all unit_float f \<Longrightarrow> list_all (\<lambda>kv. unit_float (snd kv)) items \<Longrightarrow>
     list_all unit_float (emotion_features i items f)"
  by (induction i items f rule: emotion_features.induct) (auto simp: list_all_unit_update)

subsection \<open>The keyword loop\<close>

lemma keyword_features_length:
  "keyword_features H i kws f = Inr f' \<Longrightarrow> length f' = length f"
proof (induction kws arbitrary: i f)
  case Nil
  then show ?case by simp
next
  case (Cons k kws)
  then show ?case
    by (auto simp: bind_exc_eq_Inr Let_def split: if_splits)
qed

lemma keyword_features_frame:
  "keyword_features H i kws f = Inr f' \<Longrightarrow> j < 38 + i \<or> 38 + i + length kws \<le> j \<Longrightarrow>
     f' ! j = f ! j"
proof (induction kws arbitrary: i f)
  case Nil
  then show ?case by simp
next
  case (Cons k kws)
  show ?case
  proof (cases "i < 12")
    case True
    then obtain hv where
      r: "keyword_features H (Suc i) kws (f[38 + i := PFloat (of_int (\<bar>hv\<bar> mod 100) / 100)]) = Inr f'"
      using Cons.prems(1) by (auto simp: bind_exc_eq_Inr Let_def)
    have "f' ! j = (f[38 + i := PFloat (of_int (\<bar>hv\<bar> mod 100) / 100)]) ! j"
      using Cons.IH [OF r] Cons.prems(2) by auto
    then show ?thesis using Cons.prems(2) by auto
  next
    case False
    then have r: "keyword_features H (Suc i) kws f = Inr f'"
      using Cons.prems(1) by simp
    show ?thesis using Cons.IH [OF r] Cons.prems(2) by auto
  qed
qed

lemma hash_slot_unit: "unit_float (PFloat (of_int (\<bar>hv\<bar> mod 100) / 100))"
proof -
  have "0 \<le> \<bar>hv\<bar> mod 100" and "\<bar>hv\<bar> mod 100 < 100" by simp_all
  then have "(0::rat) \<le> of_int (\<bar>hv\<bar> mod 100)" and "(of_int (\<bar>hv\<bar> mod 100) :: rat) \<le> 100"
    by (simp_all add: of_int_le_iff [where 'a = rat, of _ 100, simplified])
  then show ?thesis by simp
qed

lemma keyword_features_hashable:
  "list_all hashable kws \<Longrightarrow>
     \<exists>f'. keyword_features H i kws f = Inr f'
        \<and> (list_all unit_float f \<longrightarrow> list_all unit_float f')"
proof (induction kws arbitrary: i f)
  case Nil
  then show ?case by simp
next
  case (Cons k kws)
  then have hk: "hashable k" and hs: "list_all hashable kws" by simp_all
  show ?case
  proof (cases "i < 12")
    case True
    let ?f = "f[38 + i := PFloat (of_int (\<bar>H k\<bar> mod 100) / 100)]"
    obtain f' where f': "keyword_features H (Suc i) kws ?f = Inr f'"
      "list_all unit_float ?f \<longrightarrow> list_all unit_float f'"
      using Cons.IH [OF hs, of "Suc i" ?f] by blast
    have "list_all unit_float f \<longrightarrow> list_all unit_float f'"
      using f'(2) hash_slot_unit by (simp add: list_all_unit_update)
    then show ?thesis using True hk f'(1) by (simp add: py_hash_def Let_def)
  next
    case False
    then show ?thesis using Cons.IH [OF hs, of "Suc i" f] by simp
  qed
qed

subsection \<open>The whole encoder\<close>

lemma iterated_Inr: "py_iter v = Inr xs \<Longrightarrow> iterated v = xs"
  by (simp add: iterated_def)

lemma embedding_body_steps:
  assumes "embedding_body H r = Inr f"
  obtains colors f1 objects f2 items first_keywords kws where
    "py_iter (dict_get r ''colors'' (PList [])) = Inr colors"
    "color_features colors (replicate 50 (PFloat 0)) = Inr f1"
    "py_iter (dict_get r ''objects'' (PList [])) = Inr objects"
    "object_feature_loop objects f1 = Inr f2"
    "py_items (dict_get r ''emotions'' (PDict [])) = Inr items"
    "py_slice_to 12 (dict_get r ''search_keywords'' (PList [])) = Inr first_keywords"
    "py_iter first_keywords = Inr kws"
    "keyword_features H 0 kws (emotion_features 0 (take 20 items) f2) = Inr f"
  using assms unfolding embedding_body_def Let_def bind_exc_eq_Inr by blast

lemma embedding_body_length:
  assumes "embedding_body H r = Inr f"
  shows "length f = 50"
proof -
  from assms obtain colors f1 objects f2 items first_keywords kws where
    s: "color_features colors (replicate 50 (PFloat 0)) = Inr f1"
       "object_feature_loop objects f1 = Inr f2"
       "keyword_features H 0 kws (emotion_features 0 (take 20 items) f2) = Inr f"
    by (rule embedding_body_steps)
  have "length f1 = 50" using color_features_length [OF s(1)] by simp
  then have "length f2 = 50" using object_feature_loop_length [OF s(2)] by simp
  then show ?thesis
    using keyword_features_length [OF s(3)] by (simp add: emotion_features_length)
qed

lemma generate_simple_embedding_length: "length (generate_simple_embedding H r) = 50"
  by (cases "embedding_body H r") (simp_all add: generate_simple_embedding_def embedding_body_length)

lemma py_slice_to_12_length:
  "py_slice_to 12 v = Inr fk \<Longrightarrow> py_iter fk = Inr kws \<Longrightarrow> length kws \<le> 12"
  by (cases v) (auto simp: py_slice_to_def)

lemma embedding_body_unused:
  assumes "embedding_body H r = Inr f" and "j \<notin> set (written_slots r)" and "j < 50"
  shows "f ! j = PFloat 0"
proof -
  from assms(1) obtain colors f1 objects f2 items first_keywords kws where
    s: "py_iter (dict_get r ''colors'' (PList [])) = Inr colors"
       "color_features colors (replicate 50 (PFloat 0)) = Inr f1"
       "py_iter (dict_get r ''objects'' (PList [])) = Inr objects"
       "object_feature_loop objects f1 = Inr f2"
       "py_items (dict_get r ''emotions'' (PDict [])) = Inr items"
       "py_slice_to 12 (dict_get r ''search_keywords'' (PList [])) = Inr first_keywords"
       "py_iter first_keywords = Inr kws"
       "keyword_features H 0 kws (emotion_features 0 (take 20 items) f2) = Inr f"
    by (rule embedding_body_steps)
  have w: "j \<notin> set (List.map_filter color_slot colors)"
      "j \<notin> set (List.map_filter object_slot objects)"
      "j \<notin> set [18..<18 + min 20 (length items)]"
      "j \<notin> set [38..<38 + length kws]"
    using assms(2) s by (simp_all add: written_slots_def iterated_Inr)
  have "f1 ! j = replicate 50 (PFloat 0) ! j"
    using s(2) w(1) by (rule color_features_frame)
  then have 1: "f1 ! j = PFloat 0" using assms(3) by simp
  have 2: "f2 ! j = f1 ! j"
    using s(4) w(2) by (rule object_feature_loop_frame)
  have "j < 18 + 0 \<or> 18 + 0 + length (take 20 items) \<le> j"
    using w(3) by auto
  then have 3: "emotion_features 0 (take 20 items) f2 ! j = f2 ! j"
    by (rule emotion_features_frame)
  have "j < 38 + 0 \<or> 38 + 0 + length kws \<le> j"
    using w(4) by auto
  then have "f ! j = emotion_features 0 (take 20 items) f2 ! j"
    using s(8) keyword_features_frame by blast
  then show ?thesis using 1 2 3 by simp
qed

lemma generate_simple_embedding_unused:
  assumes "j \<notin> set (written_slots r)" and "j < 50"
  shows "generate_simple_embedding H r ! j = PFloat 0"
proof (cases "embedding_body H r")
  case (Inl e)
  then show ?thesis using assms(2) by (simp add: generate_simple_embedding_def)
next
  case (Inr f)
  then show ?thesis
    using embedding_body_unused [OF Inr assms] by (simp add: generate_simple_embedding_def)
qed

subsection \<open>Scores of the Emotion Mapper\<close>

lemma update_member:
  "(k', v') \<in> set (AList.update k v al) \<Longrightarrow> (k', v') \<in> set al \<or> (k' = k \<and> v' = v)"
  by (induction al) (auto split: if_splits)

lemma dict_get_member: "dict_get d k x = x \<or> (k, dict_get d k x) \<in> set d"
  by (auto simp: dict_get_def split: option.splits dest: map_of_SomeD)

lemma scores_in_update:
  "scores_in lo hi d \<Longrightarrow> lo \<le> v \<Longrightarrow> v \<le> hi \<Longrightarrow> scores_in lo hi (AList.update k v d)"
  unfolding scores_in_def using update_member by fastforce

lemma scores_in_get:
  "scores_in lo hi d \<Longrightarrow> lo \<le> x \<Longrightarrow> x \<le> hi \<Longrightarrow> lo \<le> dict_get d k x \<and> dict_get d k x \<le> hi"
  unfolding scores_in_def using dict_get_member [of d k x] by force

lemma add_color_emotions_scores:
  "scores_in 0 1 em \<Longrightarrow> scores_in 0 1 table \<Longrightarrow> scores_in 0 1 (add_color_emotions table em)"
proof (induction table em rule: add_color_emotions.induct)
  case (1 emotions)
  then show ?case by simp
next
  case (2 emotion score rest emotions)
  have s: "0 \<le> score \<and> score \<le> 1" and r: "scores_in 0 1 rest"
    using 2(3) by (simp_all add: scores_in_def)
  have "0 \<le> dict_get emotions emotion 0 \<and> dict_get emotions emotion 0 \<le> 1"
    using 2(2) by (rule scores_in_get) simp_all
  then have "scores_in 0 1 (AList.update emotion (max (dict_get emotions emotion 0) score) emotions)"
    using s 2(2) by (intro scores_in_update) auto
  then show ?case using 2(1) r by simp
qed

lemma color_emotions_scores:
  "map_of color_emotions color = Some table \<Longrightarrow> scores_in 0 1 table"
  by (auto simp: color_emotions_def scores_in_def split: if_splits)

lemma color_based_emotions_scores:
  "scores_in 0 1 em \<Longrightarrow> scores_in 0 1 (color_based_emotions colors em)"
proof (induction colors em rule: color_based_emotions.induct)
  case (1 emotions)
  then show ?case by simp
next
  case (2 color rest emotions)
  then show ?case
    by (auto split: option.splits intro: add_color_emotions_scores color_emotions_scores)
qed

lemma brightness_based_emotions_scores:
  assumes "scores_in 0 1 em"
  shows "scores_in 0 2 (brightness_based_emotions brightness em)"
proof -
  have em2: "scores_in 0 2 em" using assms by (fastforce simp: scores_in_def)
  have get: "0 \<le> dict_get d k 0 + 3/10 \<and> dict_get d k 0 + 3/10 \<le> 2" if "scores_in 0 1 d" for d k
    using scores_in_get [OF that, of 0 k] by simp
  have b: "scores_in 0 1 (AList.update k v em)" if "0 \<le> v" "v \<le> 1" for k v
    using assms that by (rule scores_in_update)
  have b2: "scores_in 0 2 (AList.update k v d)" if "scores_in 0 1 d" "0 \<le> v" "v \<le> 2" for k v d
  proof -
    have "scores_in 0 2 d" using that(1) by (fastforce simp: scores_in_def)
    then show ?thesis using that(2,3) by (rule scores_in_update)
  qed
  show ?thesis
    unfolding brightness_based_emotions_def Let_def
    by (auto intro!: b2 b get [THEN conjunct1] get [THEN conjunct2] assms)
qed

lemma analyze_emotions_scores: "scores_in 0 1 (analyze_emotions_from_colors colors brightness)"
proof -
  have "scores_in 0 1 (color_based_emotions colors [])"
    by (rule color_based_emotions_scores) (simp add: scores_in_def)
  then have "scores_in 0 2 (brightness_based_emotions brightness (color_based_emotions colors []))"
    by (rule brightness_based_emotions_scores)
  then show ?thesis
    by (auto simp: analyze_emotions_from_colors_def normalize_emotions_def scores_in_def)
qed

subsection \<open>The encoder on an assembled result\<close>

lemma keyword_features_unit:
  "keyword_features H i kws f = Inr f' \<Longrightarrow> list_all unit_float f \<Longrightarrow> list_all unit_float f'"
proof (induction kws arbitrary: i f)
  case Nil
  then show ?case by simp
next
  case (Cons k kws)
  show ?case
  proof (cases "i < 12")
    case True
    then obtain hv where
      r: "keyword_features H (Suc i) kws (f[38 + i := PFloat (of_int (\<bar>hv\<bar> mod 100) / 100)]) = Inr f'"
      using Cons.prems(1) by (auto simp: bind_exc_eq_Inr Let_def)
    show ?thesis
      using Cons.IH [OF r] Cons.prems(2) hash_slot_unit by (simp add: list_all_unit_update)
  next
    case False
    then show ?thesis using Cons by simp
  qed
qed

lemma object_feature_loop_pseudo_unit:
  "\<forall>obj \<in> set objs. \<exists>n c. obj = pseudo_object n c w h \<and> 0 \<le> c \<and> c \<le> 1 \<Longrightarrow>
     \<exists>f'. object_feature_loop (map PDict objs) f = Inr f'
        \<and> (list_all unit_float f \<longrightarrow> list_all unit_float f')"
proof (induction objs arbitrary: f)
  case Nil
  then show ?case by simp
next
  case (Cons obj objs)
  then obtain n c where obj: "obj = pseudo_object n c w h" and c: "0 \<le> c" "c \<le> 1"
    by auto
  let ?f = "case map_of object_features n of None \<Rightarrow> f | Some i \<Rightarrow> f[i := PFloat c]"
  have u: "list_all unit_float f \<longrightarrow> list_all unit_float ?f"
    using c by (simp add: list_all_unit_update split: option.splits)
  obtain f' where "object_feature_loop (map PDict objs) ?f = Inr f'"
    "list_all unit_float ?f \<longrightarrow> list_all unit_float f'"
    using Cons.IH [of ?f] Cons.prems by auto
  moreover have "object_feature_loop (map PDict (obj # objs)) f
                   = object_feature_loop (map PDict objs) ?f"
    unfolding obj list.map(2) by (rule object_feature_loop_pseudo)
  ultimately show ?case
    using u by auto
qed

lemma emotion_items_unit:
  "scores_in 0 1 emotions \<Longrightarrow>
     list_all (\<lambda>kv. unit_float (snd kv)) (take n (map (\<lambda>(emotion, v). (emotion, PFloat v)) emotions))"
  by (fastforce simp: scores_in_def list_all_iff dest!: in_set_takeD)

lemma embedding_assembled_unit:
  assumes objs: "\<forall>obj \<in> set objects. \<exists>n c. obj = pseudo_object n c w h \<and> 0 \<le> c \<and> c \<le> 1"
    and em: "scores_in 0 1 emotions"
  shows "list_all unit_float
           (generate_simple_embedding H
              (assembled_result objects caption emotions colors kws concepts emb0))"
proof (cases "embedding_body H (assembled_result objects caption emotions colors kws concepts emb0)")
  case (Inl e)
  then show ?thesis
    by (simp add: generate_simple_embedding_def list_all_iff)
next
  case (Inr f)
  let ?r = "assembled_result objects caption emotions colors kws concepts emb0"
  from Inr obtain cs f1 os f2 items fk ks where
    s: "py_iter (dict_get ?r ''colors'' (PList [])) = Inr cs"
       "color_features cs (replicate 50 (PFloat 0)) = Inr f1"
       "py_iter (dict_get ?r ''objects'' (PList [])) = Inr os"
       "object_feature_loop os f1 = Inr f2"
       "py_items (dict_get ?r ''emotions'' (PDict [])) = Inr items"
       "keyword_features H 0 ks (emotion_features 0 (take 20 items) f2) = Inr f"
    by (rule embedding_body_steps)
  have cs: "cs = map PStr colors" and os: "os = map PDict objects"
    and items: "items = map (\<lambda>(emotion, v). (emotion, PFloat v)) emotions"
    using s(1,3,5) by (simp_all add: assembled_result_def dict_get_def py_items_def)
  have z: "list_all unit_float (replicate 50 (PFloat 0))"
    by (simp add: list_all_iff)
  have "list_all unit_float f1"
    using color_features_strings [of colors "replicate 50 (PFloat 0)"] s(2) z cs by auto
  then have "list_all unit_float f2"
    using object_feature_loop_pseudo_unit [OF objs, of f1] s(4) os by auto
  then have "list_all unit_float (emotion_features 0 (take 20 items) f2)"
    using emotion_items_unit [OF em, of 20] items by (simp add: emotion_features_unit)
  then have "list_all unit_float f"
    using s(6) keyword_features_unit by blast
  then show ?thesis using Inr by (simp add: generate_simple_embedding_def)
qed

lemma embedding_assembled_low_slots:
  assumes objs: "\<forall>obj \<in> set objects. \<exists>n c. obj = pseudo_object n c w h \<and> 0 \<le> c \<and> c \<le> 1"
    and kws: "list_all hashable kws"
  shows "\<exists>f1 f2. color_features (map PStr colors) (replicate 50 (PFloat 0)) = Inr f1
            \<and> (\<forall>j \<ge> 11. j < 50 \<longrightarrow> f1 ! j = PFloat 0)
            \<and> object_feature_loop (map PDict objects) f1 = Inr f2
            \<and> (\<forall>j < 18. generate_simple_embedding H
                  (assembled_result objects caption emotions colors kws concepts emb0) ! j = f2 ! j)"
proof -
  let ?r = "assembled_result objects caption emotions colors kws concepts emb0"
  let ?items = "map (\<lambda>(emotion, v). (emotion, PFloat v)) emotions"
  obtain f1 where f1: "color_features (map PStr colors) (replicate 50 (PFloat 0)) = Inr f1"
    "\<forall>j \<ge> 11. f1 ! j = replicate 50 (PFloat 0) ! j"
    using color_features_strings [of colors "replicate 50 (PFloat 0)"] by blast
  obtain f2 where f2: "object_feature_loop (map PDict objects) f1 = Inr f2"
    using object_feature_loop_pseudo_unit [OF objs, of f1] by blast
  let ?f3 = "emotion_features 0 (take 20 ?items) f2"
  have "list_all hashable (take 12 kws)"
    using kws by (auto simp: list_all_iff dest: in_set_takeD)
  then obtain f where f: "keyword_features H 0 (take 12 kws) ?f3 = Inr f"
    using keyword_features_hashable [of "take 12 kws" H 0 ?f3] by blast
  have body: "embedding_body H ?r = Inr f"
    using f1(1) f2 f
    by (simp add: embedding_body_def assembled_result_def dict_get_def py_items_def py_slice_to_def)
  have low: "f ! j = f2 ! j" if "j < 18" for j
  proof -
    have "f ! j = ?f3 ! j"
      using f that keyword_features_frame [of H 0 "take 12 kws" ?f3 f j] by simp
    also have "\<dots> = f2 ! j"
      using that by (simp add: emotion_features_frame)
    finally show ?thesis .
  qed
  have "\<forall>j \<ge> 11. j < 50 \<longrightarrow> f1 ! j = PFloat 0"
    using f1(2) by simp
  then show ?thesis
    using f1(1) f2 body low by (auto simp: generate_simple_embedding_def)
qed

lemma object_loop_pipeline:
  "\<exists>f'. object_feature_loop
          (map PDict (orientation_objects ar w h @ [pseudo_object (size_category tp) (8/10) w h]
                        @ brightness_objects br w h)) f = Inr f'
       \<and> f' = (let f1 = (if ar > 15/10 then f[11 := PFloat (9/10)]
                         else if ar < 67/100 then f[12 := PFloat (9/10)] else f);
                   f2 = f1[(if 2000000 < tp then 15 else if 500000 < tp then 16 else 17) := PFloat (8/10)]
               in if br > 200 then f2[13 := PFloat (7/10)]
                  else if br < 80 then f2[14 := PFloat (7/10)] else f2)"
  by (simp add: orientation_objects_def size_category_def brightness_objects_def
        object_feature_loop_pseudo object_features_def Let_def
        del: object_feature_loop.simps(2))

lemma pseudo_object_unit:
  "0 \<le> c \<Longrightarrow> c \<le> 1 \<Longrightarrow>
     \<exists>n' c'. pseudo_object n c w h = pseudo_object n' c' w h \<and> 0 \<le> c' \<and> c' \<le> 1"
  by blast

lemma pipeline_objects_pseudo:
  "\<forall>obj \<in> set (orientation_objects ar w h @ [pseudo_object (size_category tp) (8/10) w h]
                   @ brightness_objects br w h).
      \<exists>n c. obj = pseudo_object n c w h \<and> 0 \<le> c \<and> c \<le> 1"
  by (auto simp: orientation_objects_def brightness_objects_def intro!: pseudo_object_unit)

section \<open>Properties of the image path\<close>

lemma set_update_strings: "set_update ks (map PStr xs) = Inr (ks @ map PStr xs)"
  by (simp add: set_update_def list_all_iff)

lemma set_update_keys:
  "set_update ks (map (\<lambda>kv. PStr (fst kv)) d) = Inr (ks @ map (\<lambda>kv. PStr (fst kv)) d)"
  by (simp add: set_update_def list_all_iff)

lemma set_update_hashable:
  "list_all hashable xs \<Longrightarrow> set_update ks xs = Inr (ks @ xs)"
  by (simp add: set_update_def)

lemma object_names_pseudo:
  "\<forall>obj \<in> set objs. \<exists>n c. obj = pseudo_object n c w h \<and> 0 \<le> c \<and> c \<le> 1 \<Longrightarrow>
     \<exists>names. object_names objs = Inr names \<and> list_all hashable names"
proof (induction objs)
  case Nil
  then show ?case by simp
next
  case (Cons obj objs)
  then obtain n c where obj: "obj = pseudo_object n c w h" by auto
  obtain names where "object_names objs = Inr names" "list_all hashable names"
    using Cons by auto
  then show ?case by (simp add: obj pseudo_object_def)
qed

lemma analyze_image_body_success:
  assumes op: "image_open P bs = Inr img0"
    and conv: "(if image_mode P img0 \<noteq> ''RGB'' then image_convert P img0 ''RGB'' else Inr img0) = Inr img"
    and size: "image_size P img = (w, h)" and h: "h \<noteq> 0"
    and colors: "colors = analyze_colors P img"
    and brightness: "brightness = analyze_brightness P img"
    and objects: "objects = orientation_objects (of_nat w / of_nat h) w h
                    @ [pseudo_object (size_category (w * h)) (8/10) w h]
                    @ brightness_objects brightness w h"
    and emotions: "emotions = analyze_emotions_from_colors colors brightness"
    and caption: "caption = generate_basic_caption colors objects brightness"
    and concepts: "concepts = semantic_concepts colors emotions"
  shows "\<exists>kws. list_all hashable kws
           \<and> analyze_image_body P H so bs =
               Inr (assembled_result objects caption emotions colors (so kws) concepts
                      (generate_simple_embedding H
                         (assembled_result objects caption emotions colors (so kws) concepts [])))"
proof -
  have ps: "\<forall>obj \<in> set objects. \<exists>n c. obj = pseudo_object n c w h \<and> 0 \<le> c \<and> c \<le> 1"
    unfolding objects by (rule pipeline_objects_pseudo)
  then obtain names where names: "object_names objects = Inr names" "list_all hashable names"
    using object_names_pseudo by blast
  let ?kws = "map PStr colors @ names @ map (\<lambda>kv. PStr (fst kv)) emotions
                @ orientation_words (of_nat w / of_nat h)"
  have "list_all hashable (orientation_words (of_nat w / of_nat h))"
    by (simp add: orientation_words_def)
  moreover have "list_all hashable (map PStr colors)"
    and "list_all hashable (map (\<lambda>kv. PStr (fst kv)) emotions)"
    by (simp_all add: list_all_iff)
  ultimately have hk: "list_all hashable ?kws"
    using names(2) by (simp only: list_all_append simp_thms)
  have su: "set_update (map PStr colors) names = Inr (map PStr colors @ names)"
    using names(2) by (rule set_update_hashable)
  have "analyze_image_body P H so bs =
          Inr (assembled_result objects caption emotions colors (so ?kws) concepts
                 (generate_simple_embedding H
                    (assembled_result objects caption emotions colors (so ?kws) concepts [])))"
    unfolding analyze_image_body_def
    using h names(1) su
    by (simp add: op conv size Let_def caption concepts emotions objects brightness colors
          set_update_strings [of "[]", simplified] set_update_keys
          initial_result_def assembled_result_def)
  then show ?thesis using hk by blast
qed

lemma analyze_image_body_Inr:
  assumes "analyze_image_body P H so bs = Inr result"
  obtains img0 img w h where
    "image_open P bs = Inr img0"
    "(if image_mode P img0 \<noteq> ''RGB'' then image_convert P img0 ''RGB'' else Inr img0) = Inr img"
    "image_size P img = (w, h)" "h \<noteq> 0"
proof (cases "image_open P bs")
  case (Inl e)
  then show ?thesis using assms by (simp add: analyze_image_body_def)
next
  case op: (Inr img0)
  show ?thesis
  proof (cases "if image_mode P img0 \<noteq> ''RGB'' then image_convert P img0 ''RGB'' else Inr img0")
    case (Inl e)
    then show ?thesis using assms op by (simp add: analyze_image_body_def)
  next
    case conv: (Inr img)
    obtain w h where wh: "image_size P img = (w, h)" by (cases "image_size P img")
    have "h \<noteq> 0"
    proof
      assume "h = 0"
      then have "analyze_image_body P H so bs = Inl (Exc ''ZeroDivisionError'' ''division by zero'')"
        using op conv wh by (simp add: analyze_image_body_def)
      then show False using assms by simp
    qed
    then show ?thesis using that op conv wh by blast
  qed
qed

lemma analyze_image_body_shape:
  assumes "analyze_image_body P H so bs = Inr result"
  shows "\<exists>objects caption emotions colors kws concepts emb.
           result = assembled_result objects caption emotions colors kws concepts emb
           \<and> length emb = 50 \<and> list_all unit_float emb"
proof -
  from assms obtain img0 img w h where
    c: "image_open P bs = Inr img0"
       "(if image_mode P img0 \<noteq> ''RGB'' then image_convert P img0 ''RGB'' else Inr img0) = Inr img"
       "image_size P img = (w, h)" "h \<noteq> 0"
    by (rule analyze_image_body_Inr)
  define colors where "colors = analyze_colors P img"
  define brightness where "brightness = analyze_brightness P img"
  define objects where "objects = orientation_objects (of_nat w / of_nat h) w h
                    @ [pseudo_object (size_category (w * h)) (8/10) w h]
                    @ brightness_objects brightness w h"
  define emotions where "emotions = analyze_emotions_from_colors colors brightness"
  define caption where "caption = generate_basic_caption colors objects brightness"
  define concepts where "concepts = semantic_concepts colors emotions"
  obtain kws where
    r: "analyze_image_body P H so bs =
          Inr (assembled_result objects caption emotions colors (so kws) concepts
                 (generate_simple_embedding H
                    (assembled_result objects caption emotions colors (so kws) concepts [])))"
    using analyze_image_body_success [OF c colors_def brightness_def objects_def emotions_def
        caption_def concepts_def, of H so] by blast
  have ps: "\<forall>obj \<in> set objects. \<exists>n c. obj = pseudo_object n c w h \<and> 0 \<le> c \<and> c \<le> 1"
    unfolding objects_def by (rule pipeline_objects_pseudo)
  have em: "scores_in 0 1 emotions"
    unfolding emotions_def by (rule analyze_emotions_scores)
  have "list_all unit_float (generate_simple_embedding H
          (assembled_result objects caption emotions colors (so kws) concepts []))"
    using ps em by (rule embedding_assembled_unit)
  then show ?thesis
    using r assms generate_simple_embedding_length by fastforce
qed

lemma analyze_image_basic_success:
  "analyze_image_body P H so bs = Inr result \<Longrightarrow> analyze_image_basic P H so bs = result"
  by (simp add: analyze_image_basic_def)

lemma analyze_image_basic_failure:
  "analyze_image_body P H so bs = Inl e \<Longrightarrow>
     analyze_image_basic P H so bs = [(''error'', PStr (exc_str e))]"
  by (simp add: analyze_image_basic_def)

text \<open>
  Claim C7, as the code has it. On the success path the image analysis returns a dict with
  exactly the nine keys objects, text, caption, emotions, colors, search_keywords,
  relationships, semantic_concepts and \<open>clip_embedding\<close>; \<open>text\<close> is the empty list, and
  \<open>clip_embedding\<close> is a list of exactly 50 floats (each between 0 and 1). The embedding is
  stored under the key \<open>clip_embedding\<close>: the result has no key \<open>embedding\<close>.
\<close>

theorem image_result_fields:
  assumes "analyze_image_body P H set_order image_bytes = Inr result"
  shows "analyze_image_basic P H set_order image_bytes = result
     \<and> map fst result =
         [''objects'', ''text'', ''caption'', ''emotions'', ''colors'', ''search_keywords'',
          ''relationships'', ''semantic_concepts'', ''clip_embedding'']
     \<and> map_of result ''text'' = Some (PList [])
     \<and> (\<exists>emb. map_of result ''clip_embedding'' = Some (PList emb)
               \<and> length emb = 50 \<and> list_all unit_float emb)"
proof -
  obtain objects caption emotions colors kws concepts emb where
    "result = assembled_result objects caption emotions colors kws concepts emb"
    "length emb = 50" "list_all unit_float emb"
    using analyze_image_body_shape [OF assms] by blast
  then show ?thesis
    using analyze_image_basic_success [OF assms] by (simp add: assembled_result_def)
qed

lemma example_solid_conditions:
  "image_open (raster_pillow (example_decode example_solid)) bs = Inr example_solid"
  "(if image_mode (raster_pillow (example_decode example_solid)) example_solid \<noteq> ''RGB''
    then image_convert (raster_pillow (example_decode example_solid)) example_solid ''RGB''
    else Inr example_solid) = Inr example_solid"
  "image_size (raster_pillow (example_decode example_solid)) example_solid = (2, 2)"
  by (simp_all add: raster_pillow_def example_decode_def example_solid_def)

lemma example_solid_body:
  "analyze_image_body (raster_pillow (example_decode example_solid)) H so bs
     = Inr (projr (analyze_image_body (raster_pillow (example_decode example_solid)) H so bs))"
proof -
  have "(2::nat) \<noteq> 0" by simp
  from analyze_image_body_success
         [OF example_solid_conditions this refl refl refl refl refl refl, where H = H and so = so and bs = bs]
  show ?thesis by auto
qed

theorem image_result_fields_witness:
  "map fst (analyze_image_basic (raster_pillow (example_decode example_solid)) example_hash remdups [])
     = [''objects'', ''text'', ''caption'', ''emotions'', ''colors'', ''search_keywords'',
        ''relationships'', ''semantic_concepts'', ''clip_embedding'']
   \<and> map_of (analyze_image_basic (raster_pillow (example_decode example_solid)) example_hash remdups [])
        ''text'' = Some (PList [])"
  using image_result_fields [OF example_solid_body [of example_hash remdups "[]"]]
  by simp

text \<open>The result of the example image has no field named \<open>embedding\<close>.\<close>

theorem image_result_has_no_embedding_key:
  "\<not> isl (analyze_image_body (raster_pillow (example_decode example_solid)) example_hash remdups [])
   \<and> map_of (analyze_image_basic (raster_pillow (example_decode example_solid)) example_hash remdups [])
        ''embedding'' = None
   \<and> ''embedding'' \<notin> set (map fst
        (analyze_image_basic (raster_pillow (example_decode example_solid)) example_hash remdups []))"
proof -
  let ?b = "analyze_image_body (raster_pillow (example_decode example_solid)) example_hash remdups []"
  have b: "?b = Inr (projr ?b)" by (rule example_solid_body)
  obtain objects caption emotions colors kws concepts emb where
    "projr ?b = assembled_result objects caption emotions colors kws concepts emb"
    using analyze_image_body_shape [OF b] by blast
  moreover have "\<not> isl ?b" using b by (metis sum.disc(2))
  ultimately show ?thesis
    using analyze_image_basic_success [OF b] by (simp add: assembled_result_def)
qed

lemma is_resolution_tier_pseudo:
  "is_resolution_tier (pseudo_object n c w h) \<longleftrightarrow> n \<in> set resolution_tiers"
  by (auto simp: is_resolution_tier_def pseudo_object_def)

lemma filter_resolution_tier:
  "filter is_resolution_tier
     (orientation_objects ar w h @ [pseudo_object (size_category tp) (8/10) w h]
        @ brightness_objects br w h)
   = [pseudo_object (size_category tp) (8/10) w h]"
  by (simp add: is_resolution_tier_pseudo orientation_objects_def brightness_objects_def
        size_category_def resolution_tiers_def)

lemma tier_slots:
  assumes "length f = 50" and "f ! 15 = PFloat 0" and "f ! 16 = PFloat 0" and "f ! 17 = PFloat 0"
    and "f' = (let f1 = (if ar > 15/10 then f[11 := PFloat (9/10)]
                         else if ar < 67/100 then f[12 := PFloat (9/10)] else f);
                   f2 = f1[(if 2000000 < tp then 15 else if 500000 < tp then 16 else 17) := PFloat (8/10)]
               in if br > 200 then f2[13 := PFloat (7/10)]
                  else if br < 80 then f2[14 := PFloat (7/10)] else f2)"
  shows "[f' ! 15, f' ! 16, f' ! 17] =
           (if 2000000 < (tp::nat) then [PFloat (8/10), PFloat 0, PFloat 0]
            else if 500000 < tp then [PFloat 0, PFloat (8/10), PFloat 0]
            else [PFloat 0, PFloat 0, PFloat (8/10)])"
  using assms(1-4) unfolding assms(5) Let_def by simp

text \<open>
  Claim C9. On the success path (the bytes decode, the image is in or converts to RGB, and
  its height is not zero) the objects list has exactly one resolution-tier object: it is
  high_resolution when width times height exceeds 2,000,000, medium_resolution when it
  exceeds 500,000, low_resolution otherwise, and its confidence is 0.8. When the keywords
  that the set yields are members of the set, the embedding has 0.8 in the slot of that
  tier among the slots 15, 16, 17 and 0.0 in the other two.
\<close>

theorem resolution_tier_object:
  assumes "image_open P image_bytes = Inr img0"
    and "(if image_mode P img0 \<noteq> ''RGB'' then image_convert P img0 ''RGB'' else Inr img0) = Inr img"
    and "image_size P img = (width, height)" and "height \<noteq> 0"
    and "\<forall>xs. set (set_order xs) \<subseteq> set xs"
  shows "\<exists>objects emb.
           map_of (analyze_image_basic P H set_order image_bytes) ''objects''
             = Some (PList (map PDict objects))
         \<and> filter is_resolution_tier objects
             = [pseudo_object
                  (if 2000000 < width * height then ''high_resolution''
                   else if 500000 < width * height then ''medium_resolution''
                   else ''low_resolution'') (8/10) width height]
         \<and> map_of (analyze_image_basic P H set_order image_bytes) ''clip_embedding''
             = Some (PList emb)
         \<and> [emb ! 15, emb ! 16, emb ! 17] =
             (if 2000000 < width * height then [PFloat (8/10), PFloat 0, PFloat 0]
              else if 500000 < width * height then [PFloat 0, PFloat (8/10), PFloat 0]
              else [PFloat 0, PFloat 0, PFloat (8/10)])"
proof -
  define colors where "colors = analyze_colors P img"
  define brightness where "brightness = analyze_brightness P img"
  define objects where "objects = orientation_objects (of_nat width / of_nat height) width height
                    @ [pseudo_object (size_category (width * height)) (8/10) width height]
                    @ brightness_objects brightness width height"
  define emotions where "emotions = analyze_emotions_from_colors colors brightness"
  define caption where "caption = generate_basic_caption colors objects brightness"
  define concepts where "concepts = semantic_concepts colors emotions"
  obtain kws where kws: "list_all hashable kws" and
    r: "analyze_image_body P H set_order image_bytes =
          Inr (assembled_result objects caption emotions colors (set_order kws) concepts
                 (generate_simple_embedding H
                    (assembled_result objects caption emotions colors (set_order kws) concepts [])))"
    using analyze_image_body_success [OF assms(1-4) colors_def brightness_def objects_def
        emotions_def caption_def concepts_def, of H set_order] by blast
  let ?emb = "generate_simple_embedding H
                (assembled_result objects caption emotions colors (set_order kws) concepts [])"
  have res: "analyze_image_basic P H set_order image_bytes
               = assembled_result objects caption emotions colors (set_order kws) concepts ?emb"
    using r by (rule analyze_image_basic_success)
  have ps: "\<forall>obj \<in> set objects. \<exists>n c. obj = pseudo_object n c width height \<and> 0 \<le> c \<and> c \<le> 1"
    unfolding objects_def by (rule pipeline_objects_pseudo)
  have hk: "list_all hashable (set_order kws)"
    using kws assms(5) by (auto simp: list_all_iff)
  obtain f1 f2 where
    f1: "color_features (map PStr colors) (replicate 50 (PFloat 0)) = Inr f1"
        "\<forall>j \<ge> 11. j < 50 \<longrightarrow> f1 ! j = PFloat 0"
    and f2: "object_feature_loop (map PDict objects) f1 = Inr f2"
    and low: "\<forall>j < 18. ?emb ! j = f2 ! j"
    using embedding_assembled_low_slots [OF ps hk, of colors H caption emotions concepts "[]"]
    by blast
  have len: "length f1 = 50"
    using color_features_length [OF f1(1)] by simp
  have f2': "f2 = (let g1 = (if of_nat width / of_nat height > (15/10 :: rat) then f1[11 := PFloat (9/10)]
                         else if of_nat width / of_nat height < (67/100 :: rat) then f1[12 := PFloat (9/10)] else f1);
                   g2 = g1[(if 2000000 < width * height then 15 else if 500000 < width * height then 16 else 17) := PFloat (8/10)]
               in if brightness > 200 then g2[13 := PFloat (7/10)]
                  else if brightness < 80 then g2[14 := PFloat (7/10)] else g2)"
    using object_loop_pipeline [of "of_nat width / of_nat height" width height "width * height"
        brightness f1] f2
    unfolding objects_def by auto
  have slots: "[f2 ! 15, f2 ! 16, f2 ! 17] =
           (if 2000000 < width * height then [PFloat (8/10), PFloat 0, PFloat 0]
            else if 500000 < width * height then [PFloat 0, PFloat (8/10), PFloat 0]
            else [PFloat 0, PFloat 0, PFloat (8/10)])"
    using len _ _ _ f2' by (rule tier_slots) (simp_all add: f1(2))
  have "[?emb ! 15, ?emb ! 16, ?emb ! 17] = [f2 ! 15, f2 ! 16, f2 ! 17]"
    using low by simp
  then have e: "[?emb ! 15, ?emb ! 16, ?emb ! 17] =
           (if 2000000 < width * height then [PFloat (8/10), PFloat 0, PFloat 0]
            else if 500000 < width * height then [PFloat 0, PFloat (8/10), PFloat 0]
            else [PFloat 0, PFloat 0, PFloat (8/10)])"
    using slots by simp
  have flt: "filter is_resolution_tier objects
             = [pseudo_object
                  (if 2000000 < width * height then ''high_resolution''
                   else if 500000 < width * height then ''medium_resolution''
                   else ''low_resolution'') (8/10) width height]"
    unfolding objects_def filter_resolution_tier by (simp add: size_category_def)
  have "map_of (analyze_image_basic P H set_order image_bytes) ''objects''
          = Some (PList (map PDict objects))"
    and "map_of (analyze_image_basic P H set_order image_bytes) ''clip_embedding''
          = Some (PList ?emb)"
    unfolding res by (simp_all add: assembled_result_def)
  then show ?thesis using flt e by blast
qed

theorem resolution_tier_object_witness:
  "(2::nat) \<noteq> 0 \<and> (\<forall>xs :: pyval list. set (remdups xs) \<subseteq> set xs)
   \<and> (\<exists>objects emb.
         map_of (analyze_image_basic (raster_pillow (example_decode example_solid)) example_hash remdups [])
           ''objects'' = Some (PList (map PDict objects))
       \<and> filter is_resolution_tier objects = [pseudo_object ''low_resolution'' (8/10) 2 2]
       \<and> map_of (analyze_image_basic (raster_pillow (example_decode example_solid)) example_hash remdups [])
           ''clip_embedding'' = Some (PList emb)
       \<and> [emb ! 15, emb ! 16, emb ! 17] = [PFloat 0, PFloat 0, PFloat (8/10)])"
proof -
  have a: "(2::nat) \<noteq> 0" and b: "\<forall>xs :: pyval list. set (remdups xs) \<subseteq> set xs"
    by simp_all
  show ?thesis
    using resolution_tier_object [OF example_solid_conditions a b, where H = example_hash and image_bytes = "[]"] a b
    by simp
qed

lemma generate_simple_embedding_failure:
  "embedding_body H r = Inl e \<Longrightarrow> generate_simple_embedding H r = replicate 50 (PFloat 0)"
  by (simp add: generate_simple_embedding_def)

text \<open>
  Claim C2. Every call of the Image Embedding Encoder returns a list of exactly 50
  elements; when its body raises, the list is the all-zero vector; every slot that the
  encoder does not write for the given result (see \<open>written_slots\<close>) is 0.0; and on the
  image path, where the result comes from the analysis of an image, every element of the
  embedding is a float between 0.0 and 1.0.
\<close>

theorem embedding_shape:
  "length (generate_simple_embedding H r) = 50
   \<and> (embedding_body H r = Inl e \<longrightarrow> generate_simple_embedding H r = replicate 50 (PFloat 0))
   \<and> (j < 50 \<and> j \<notin> set (written_slots r) \<longrightarrow> generate_simple_embedding H r ! j = PFloat 0)
   \<and> (analyze_image_body P H' set_order image_bytes = Inr result \<longrightarrow>
        (\<exists>emb. map_of result ''clip_embedding'' = Some (PList emb)
              \<and> length emb = 50 \<and> list_all unit_float emb))"
proof (intro conjI impI)
  show "length (generate_simple_embedding H r) = 50"
    by (rule generate_simple_embedding_length)
next
  assume "embedding_body H r = Inl e"
  then show "generate_simple_embedding H r = replicate 50 (PFloat 0)"
    by (rule generate_simple_embedding_failure)
next
  assume "j < 50 \<and> j \<notin> set (written_slots r)"
  then show "generate_simple_embedding H r ! j = PFloat 0"
    using generate_simple_embedding_unused by blast
next
  assume "analyze_image_body P H' set_order image_bytes = Inr result"
  then obtain objects caption emotions colors kws concepts emb where
    "result = assembled_result objects caption emotions colors kws concepts emb"
    "length emb = 50" "list_all unit_float emb"
    using analyze_image_body_shape by blast
  then show "\<exists>emb. map_of result ''clip_embedding'' = Some (PList emb)
              \<and> length emb = 50 \<and> list_all unit_float emb"
    by (simp add: assembled_result_def)
qed

lemma example_bad_colors:
  "embedding_body H [(''colors'', PInt 3)] = Inl (Exc ''TypeError'' ''int object is not iterable'')"
  by (simp add: embedding_body_def dict_get_def)

lemma example_blue_slots: "written_slots [(''colors'', PList [PStr ''blue''])] = [2]"
  by (simp add: written_slots_def dict_get_def iterated_def map_filter_simps color_slot_def
        key_lookup_def color_map_def object_slot_def py_items_def py_slice_to_def)

theorem embedding_shape_witness:
  "embedding_body example_hash [(''colors'', PInt 3)]
     = Inl (Exc ''TypeError'' ''int object is not iterable'')
   \<and> generate_simple_embedding example_hash [(''colors'', PInt 3)] = replicate 50 (PFloat 0)
   \<and> (5::nat) < 50 \<and> 5 \<notin> set (written_slots [(''colors'', PList [PStr ''blue''])])
   \<and> generate_simple_embedding example_hash [(''colors'', PList [PStr ''blue''])] ! 5 = PFloat 0
   \<and> (\<exists>emb. map_of (projr (analyze_image_body (raster_pillow (example_decode example_solid))
                              example_hash remdups [])) ''clip_embedding'' = Some (PList emb)
            \<and> length emb = 50 \<and> list_all unit_float emb)"
  using embedding_shape [of example_hash "[(''colors'', PInt 3)]"
          "Exc ''TypeError'' ''int object is not iterable''" 0
          "raster_pillow (example_decode example_solid)" example_hash remdups "[]"
          "projr (analyze_image_body (raster_pillow (example_decode example_solid))
                    example_hash remdups [])"]
    embedding_shape [of example_hash "[(''colors'', PList [PStr ''blue''])]" "Exc [] []" 5
          "raster_pillow (example_decode example_solid)" example_hash remdups "[]" "[]"]
    example_bad_colors [of example_hash] example_blue_slots
    example_solid_body [of example_hash remdups "[]"]
  by simp

subsection \<open>Failures\<close>

lemma analyze_brightness_convert_failure:
  "image_convert P img ''L'' = Inl e \<Longrightarrow> analyze_brightness P img = 128"
  by (simp add: analyze_brightness_def)

lemma analyze_brightness_stat_failure:
  "image_convert P img ''L'' = Inr gray \<Longrightarrow> stat_mean P gray = Inl e \<or> stat_mean P gray = Inr [] \<Longrightarrow>
     analyze_brightness P img = 128"
  by (auto simp: analyze_brightness_def)

lemma orientations_of_names:
  "orientations_of objects = Inr os \<Longrightarrow> obj \<in> set objects \<Longrightarrow> map_of obj ''name'' \<noteq> None"
  by (induction objects arbitrary: os) (auto split: option.splits sum.splits if_splits)

lemma orientations_of_failure:
  "\<exists>obj \<in> set objects. map_of obj ''name'' = None \<Longrightarrow> \<exists>e. orientations_of objects = Inl e"
  using orientations_of_names by (cases "orientations_of objects") blast+

lemma caption_failure:
  "\<exists>obj \<in> set objects. map_of obj ''name'' = None \<Longrightarrow>
     generate_basic_caption colors objects brightness = ''A photograph''"
  using orientations_of_failure [of objects]
  by (auto simp: generate_basic_caption_def Let_def)

lemma analyze_image_basic_keys:
  "map fst (analyze_image_basic P H so bs) = [''error'']
   \<or> map fst (analyze_image_basic P H so bs) =
       [''objects'', ''text'', ''caption'', ''emotions'', ''colors'', ''search_keywords'',
        ''relationships'', ''semantic_concepts'', ''clip_embedding'']"
proof (cases "analyze_image_body P H so bs")
  case (Inl e)
  then show ?thesis by (simp add: analyze_image_basic_def)
next
  case (Inr result)
  then obtain objects caption emotions colors kws concepts emb where
    "result = assembled_result objects caption emotions colors kws concepts emb"
    using analyze_image_body_shape by blast
  then show ?thesis using Inr by (simp add: analyze_image_basic_def assembled_result_def)
qed

lemma stage_failures_do_not_abort:
  assumes "image_open P bs = Inr img0"
    and "(if image_mode P img0 \<noteq> ''RGB'' then image_convert P img0 ''RGB'' else Inr img0) = Inr img"
    and "image_size P img = (w, h)" and "h \<noteq> 0"
  shows "\<not> isl (analyze_image_body P H so bs)
       \<and> map_of (analyze_image_basic P H so bs) ''colors''
            = Some (PList (map PStr (analyze_colors P img)))"
proof -
  obtain kws r where r: "analyze_image_body P H so bs = Inr r"
    and r': "r = assembled_result
       (orientation_objects (of_nat w / of_nat h) w h
          @ [pseudo_object (size_category (w * h)) (8/10) w h]
          @ brightness_objects (analyze_brightness P img) w h)
       (generate_basic_caption (analyze_colors P img)
          (orientation_objects (of_nat w / of_nat h) w h
             @ [pseudo_object (size_category (w * h)) (8/10) w h]
             @ brightness_objects (analyze_brightness P img) w h) (analyze_brightness P img))
       (analyze_emotions_from_colors (analyze_colors P img) (analyze_brightness P img))
       (analyze_colors P img) (so kws)
       (semantic_concepts (analyze_colors P img)
          (analyze_emotions_from_colors (analyze_colors P img) (analyze_brightness P img)))
       (generate_simple_embedding H
         (assembled_result
       (orientation_objects (of_nat w / of_nat h) w h
          @ [pseudo_object (size_category (w * h)) (8/10) w h]
          @ brightness_objects (analyze_brightness P img) w h)
       (generate_basic_caption (analyze_colors P img)
          (orientation_objects (of_nat w / of_nat h) w h
             @ [pseudo_object (size_category (w * h)) (8/10) w h]
             @ brightness_objects (analyze_brightness P img) w h) (analyze_brightness P img))
       (analyze_emotions_from_colors (analyze_colors P img) (analyze_brightness P img))
       (analyze_colors P img) (so kws)
       (semantic_concepts (analyze_colors P img)
          (analyze_emotions_from_colors (analyze_colors P img) (analyze_brightness P img))) []))"
    using analyze_image_body_success [OF assms refl refl refl refl refl refl, of H so] by blast
  have "map_of r ''colors'' = Some (PList (map PStr (analyze_colors P img)))"
    unfolding r' by (simp add: assembled_result_def)
  then show ?thesis using r by (simp add: analyze_image_basic_def)
qed

text \<open>
  Claim C8. Each stage absorbs its own failure with a fixed default: the color aggregator
  returns \<open>["mixed"]\<close> when the mean of the image cannot be computed; the brightness
  analyzer returns 128 when the conversion to luminance or its mean fails; the caption
  composer returns \<open>A photograph\<close> when an object has no name; the embedding encoder
  returns the 50-element zero vector when its body raises. A failure of the image path
  itself yields the dict with the single key \<open>error\<close> and the message of the
  exception; the result has either that single key or the nine keys of a normal result,
  never a mixture; and once the image is decoded, in RGB and of non-zero height, no
  failure of a stage turns the result into an error.
\<close>

theorem failures_absorbed:
  "(mean_rgb P img = Inl e1 \<longrightarrow> analyze_colors P img = [''mixed''])
   \<and> (image_convert P img ''L'' = Inl e2 \<longrightarrow> analyze_brightness P img = 128)
   \<and> (image_convert P img ''L'' = Inr gray \<and> (stat_mean P gray = Inl e3 \<or> stat_mean P gray = Inr [])
        \<longrightarrow> analyze_brightness P img = 128)
   \<and> ((\<exists>obj \<in> set objects. map_of obj ''name'' = None) \<longrightarrow>
        generate_basic_caption colors objects brightness = ''A photograph'')
   \<and> (embedding_body H r = Inl e4 \<longrightarrow> generate_simple_embedding H r = replicate 50 (PFloat 0))
   \<and> (analyze_image_body P H set_order image_bytes = Inl e5 \<longrightarrow>
        analyze_image_basic P H set_order image_bytes = [(''error'', PStr (exc_str e5))])
   \<and> (map fst (analyze_image_basic P H set_order image_bytes) = [''error'']
        \<or> map fst (analyze_image_basic P H set_order image_bytes) =
            [''objects'', ''text'', ''caption'', ''emotions'', ''colors'', ''search_keywords'',
             ''relationships'', ''semantic_concepts'', ''clip_embedding''])
   \<and> (image_open P image_bytes = Inr img0
        \<and> (if image_mode P img0 \<noteq> ''RGB'' then image_convert P img0 ''RGB'' else Inr img0) = Inr img1
        \<and> image_size P img1 = (width, height) \<and> height \<noteq> 0 \<longrightarrow>
          \<not> isl (analyze_image_body P H set_order image_bytes)
          \<and> map_of (analyze_image_basic P H set_order image_bytes) ''colors''
               = Some (PList (map PStr (analyze_colors P img1))))"
proof (intro conjI impI)
  assume "mean_rgb P img = Inl e1"
  then show "analyze_colors P img = [''mixed'']" by (rule analyze_colors_failure)
next
  assume "image_convert P img ''L'' = Inl e2"
  then show "analyze_brightness P img = 128" by (rule analyze_brightness_convert_failure)
next
  assume "image_convert P img ''L'' = Inr gray \<and> (stat_mean P gray = Inl e3 \<or> stat_mean P gray = Inr [])"
  then show "analyze_brightness P img = 128"
    by (auto simp: analyze_brightness_def)
next
  assume "\<exists>obj \<in> set objects. map_of obj ''name'' = None"
  then show "generate_basic_caption colors objects brightness = ''A photograph''"
    by (rule caption_failure)
next
  assume "embedding_body H r = Inl e4"
  then show "generate_simple_embedding H r = replicate 50 (PFloat 0)"
    by (rule generate_simple_embedding_failure)
next
  assume "analyze_image_body P H set_order image_bytes = Inl e5"
  then show "analyze_image_basic P H set_order image_bytes = [(''error'', PStr (exc_str e5))]"
    by (rule analyze_image_basic_failure)
next
  show "map fst (analyze_image_basic P H set_order image_bytes) = [''error'']
        \<or> map fst (analyze_image_basic P H set_order image_bytes) =
            [''objects'', ''text'', ''caption'', ''emotions'', ''colors'', ''search_keywords'',
             ''relationships'', ''semantic_concepts'', ''clip_embedding'']"
    by (rule analyze_image_basic_keys)
next
  assume a: "image_open P image_bytes = Inr img0
        \<and> (if image_mode P img0 \<noteq> ''RGB'' then image_convert P img0 ''RGB'' else Inr img0) = Inr img1
        \<and> image_size P img1 = (width, height) \<and> height \<noteq> 0"
  then have b: "\<not> isl (analyze_image_body P H set_order image_bytes)
       \<and> map_of (analyze_image_basic P H set_order image_bytes) ''colors''
            = Some (PList (map PStr (analyze_colors P img1)))"
    using stage_failures_do_not_abort [of P image_bytes img0 img1 width height H set_order] by blast
  show "\<not> isl (analyze_image_body P H set_order image_bytes)" using b by simp
  show "map_of (analyze_image_basic P H set_order image_bytes) ''colors''
            = Some (PList (map PStr (analyze_colors P img1)))" using b by simp
qed

lemma truncated_conditions:
  "image_open (truncated_pillow 4 3) bs = Inr ()"
  "(if image_mode (truncated_pillow 4 3) () \<noteq> ''RGB''
    then image_convert (truncated_pillow 4 3) () ''RGB'' else Inr ()) = Inr ()"
  "image_size (truncated_pillow 4 3) () = (4, 3)"
  "image_convert (truncated_pillow 4 3) () ''L'' = Inl (Exc ''OSError'' ''image file is truncated'')"
  by (simp_all add: truncated_pillow_def)

text \<open>A variant in which the conversion to luminance is granted and only the statistics
  raise.\<close>

lemma truncated_stat_only:
  "image_convert (truncated_pillow 4 3\<lparr>image_convert := (\<lambda>img m. Inr img)\<rparr>) () ''L'' = Inr ()"
  "stat_mean (truncated_pillow 4 3\<lparr>image_convert := (\<lambda>img m. Inr img)\<rparr>) ()
     = Inl (Exc ''OSError'' ''image file is truncated'')"
  by (simp_all add: truncated_pillow_def)

lemma example_undecodable:
  "analyze_image_body (raster_pillow (\<lambda>bs. Inl (Exc ''UnidentifiedImageError'' ''cannot identify image file'')))
      H so bs = Inl (Exc ''UnidentifiedImageError'' ''cannot identify image file'')"
  by (simp add: analyze_image_body_def raster_pillow_def)

theorem failures_absorbed_witness:
  "mean_rgb (truncated_pillow 4 3) () = Inl (Exc ''OSError'' ''image file is truncated'')
   \<and> analyze_colors (truncated_pillow 4 3) () = [''mixed'']
   \<and> image_convert (truncated_pillow 4 3) () ''L'' = Inl (Exc ''OSError'' ''image file is truncated'')
   \<and> analyze_brightness (truncated_pillow 4 3) () = 128
   \<and> image_convert (truncated_pillow 4 3\<lparr>image_convert := (\<lambda>img m. Inr img)\<rparr>) () ''L'' = Inr ()
   \<and> stat_mean (truncated_pillow 4 3\<lparr>image_convert := (\<lambda>img m. Inr img)\<rparr>) ()
        = Inl (Exc ''OSError'' ''image file is truncated'')
   \<and> analyze_brightness (truncated_pillow 4 3\<lparr>image_convert := (\<lambda>img m. Inr img)\<rparr>) () = 128
   \<and> (\<exists>obj \<in> set [Nil]. map_of obj ''name'' = (None :: pyval option))
   \<and> generate_basic_caption [''blue''] [Nil] 128 = ''A photograph''
   \<and> embedding_body example_hash [(''colors'', PInt 3)]
        = Inl (Exc ''TypeError'' ''int object is not iterable'')
   \<and> generate_simple_embedding example_hash [(''colors'', PInt 3)] = replicate 50 (PFloat 0)
   \<and> analyze_image_basic
        (raster_pillow (\<lambda>bs. Inl (Exc ''UnidentifiedImageError'' ''cannot identify image file'')))
        example_hash remdups [] = [(''error'', PStr ''cannot identify image file'')]
   \<and> (3 :: nat) \<noteq> 0
   \<and> \<not> isl (analyze_image_body (truncated_pillow 4 3) example_hash remdups [])
   \<and> map_of (analyze_image_basic (truncated_pillow 4 3) example_hash remdups [])
        ''colors'' = Some (PList [PStr ''mixed''])"
  using failures_absorbed [where P = "truncated_pillow 4 3"
          and img = "()" and ?e1.0 = "Exc ''OSError'' ''image file is truncated''"
          and ?e2.0 = "Exc ''OSError'' ''image file is truncated''"
          and gray = "()" and ?e3.0 = "Exc [] []"
          and objects = "[Nil]" and colors = "[''blue'']" and brightness = 128
          and H = example_hash and r = "[(''colors'', PInt 3)]"
          and ?e4.0 = "Exc ''TypeError'' ''int object is not iterable''"
          and set_order = remdups and image_bytes = "[]" and ?e5.0 = "Exc [] []"
          and ?img0.0 = "()" and ?img1.0 = "()" and width = 4 and height = 3]
    failures_absorbed [where P = "truncated_pillow 4 3\<lparr>image_convert := (\<lambda>img m. Inr img)\<rparr>"
          and img = "()" and ?e1.0 = "Exc [] []" and ?e2.0 = "Exc [] []"
          and gray = "()" and ?e3.0 = "Exc ''OSError'' ''image file is truncated''"
          and objects = "[]" and colors = "[]" and brightness = 0
          and H = example_hash and r = "[]" and ?e4.0 = "Exc [] []"
          and set_order = remdups and image_bytes = "[]" and ?e5.0 = "Exc [] []"
          and ?img0.0 = "()" and ?img1.0 = "()" and width = 0 and height = 0]
    failures_absorbed [where P = "raster_pillow (\<lambda>bs. Inl (Exc ''UnidentifiedImageError'' ''cannot identify image file''))"
          and img = example_solid and ?e1.0 = "Exc [] []" and ?e2.0 = "Exc [] []"
          and gray = example_solid and ?e3.0 = "Exc [] []"
          and objects = "[]" and colors = "[]" and brightness = 0
          and H = example_hash and r = "[]" and ?e4.0 = "Exc [] []"
          and set_order = remdups and image_bytes = "[]"
          and ?e5.0 = "Exc ''UnidentifiedImageError'' ''cannot identify image file''"
          and ?img0.0 = example_solid and ?img1.0 = example_solid and width = 0 and height = 0]
    truncated_mean truncated_conditions truncated_stat_only
    example_bad_colors [of example_hash] example_undecodable [of example_hash remdups "[]"]
  by simp

end
